theory Spec2Isabelle
  imports Complex_Main "HOL-Library.Char_ord" "HOL-Library.List_Lexorder"
    "HOL-Library.Product_Lexorder" "HOL-Library.Multiset"
begin

section \<open>Identity resolution, duplicate prevention and cleanup of the OCR repository\<close>

text \<open>
  The development embeds the user-management subsystem of the repository
  (\<^verbatim>\<open>src/user_management/*.py\<close> and the ingestion boundary
  \<^verbatim>\<open>AadhaarExtractionTool.store_in_database\<close>) as HOL functions.

  Conventions of the embedding:
  \<^item> A Python \<^verbatim>\<open>str\<close> is a \<^typ>\<open>string\<close>; the characters considered are the
    ASCII ones, where \<^verbatim>\<open>str.upper\<close> maps \<^verbatim>\<open>a-z\<close> to \<^verbatim>\<open>A-Z\<close> and the regular
    expression class \<^verbatim>\<open>\d\<close> is \<^verbatim>\<open>0-9\<close>.  A value that may be \<^verbatim>\<open>None\<close> (or SQL
    \<^verbatim>\<open>NULL\<close>) is an \<^typ>\<open>'a option\<close>.
  \<^item> A SQLite table is the list of its rows in rowid order; \<^verbatim>\<open>fetchone()\<close> is the
    first matching row of that list.
  \<^item> A raised exception is the \<open>Inl\<close> branch of a sum type.
  \<^item> What a function writes to its \<^verbatim>\<open>logging\<close> logger is returned as a list of
    log entries where a property depends on it.
\<close>

subsection \<open>Strings\<close>

definition is_lower :: "char \<Rightarrow> bool" where
  "is_lower c = (97 \<le> (of_char c :: nat) \<and> (of_char c :: nat) \<le> 122)"

definition is_upper :: "char \<Rightarrow> bool" where
  "is_upper c = (65 \<le> (of_char c :: nat) \<and> (of_char c :: nat) \<le> 90)"

definition is_digit :: "char \<Rightarrow> bool" where
  "is_digit c = (48 \<le> (of_char c :: nat) \<and> (of_char c :: nat) \<le> 57)"

text \<open>\<^verbatim>\<open>str.upper()\<close>, character by character.\<close>

definition upper_char :: "char \<Rightarrow> char" where
  "upper_char c = (if is_lower c then char_of ((of_char c :: nat) - 32) else c)"

definition upper :: "string \<Rightarrow> string" where
  "upper s = map upper_char s"

text \<open>\<^verbatim>\<open>str.isspace()\<close> on one ASCII character, and \<^verbatim>\<open>str.strip()\<close>.\<close>

definition is_space :: "char \<Rightarrow> bool" where
  "is_space c = ((of_char c :: nat) = 32 \<or> (9 \<le> (of_char c :: nat) \<and> (of_char c :: nat) \<le> 13)
                 \<or> (28 \<le> (of_char c :: nat) \<and> (of_char c :: nat) \<le> 31))"

definition strip :: "string \<Rightarrow> string" where
  "strip s = rev (dropWhile is_space (rev (dropWhile is_space s)))"

subsection \<open>IdentifierNormalizer (\<^verbatim>\<open>duplicate_prevention_service.py\<close>)\<close>

datatype log_level = INFO | WARNING | ERROR

text \<open>
  \<^verbatim>\<open>re.sub(r'[^\dX]', '', str(aadhaar_number).upper())\<close>: every character that is
  neither a digit nor \<^verbatim>\<open>X\<close> is deleted from the upper-cased input.  The early return
  for a falsy argument is kept as the source has it.
\<close>

definition normalize_aadhaar :: "string \<Rightarrow> string" where
  "normalize_aadhaar aadhaar_number =
     (if aadhaar_number = [] then []
      else filter (\<lambda>c. is_digit c \<or> c = CHR ''X'') (upper aadhaar_number))"

text \<open>The warning \<^verbatim>\<open>normalize_aadhaar\<close> logs; it does not change the returned value.\<close>

definition normalize_aadhaar_warns :: "string \<Rightarrow> bool" where
  "normalize_aadhaar_warns aadhaar_number =
     (aadhaar_number \<noteq> [] \<and> length (normalize_aadhaar aadhaar_number) \<noteq> 12)"

text \<open>\<^verbatim>\<open>re.sub(r'[^A-Z0-9]', '', str(pan_number).upper())\<close>.\<close>

definition normalize_pan :: "string \<Rightarrow> string" where
  "normalize_pan pan_number =
     (if pan_number = [] then []
      else filter (\<lambda>c. is_upper c \<or> is_digit c) (upper pan_number))"

text \<open>\<^verbatim>\<open>re.match(r'^[A-Z]{5}[0-9]{4}[A-Z]$', normalized)\<close> on a string of length 10.\<close>

definition pan_shape :: "string \<Rightarrow> bool" where
  "pan_shape s = (length s = 10 \<and> list_all is_upper (take 5 s)
                  \<and> list_all is_digit (take 4 (drop 5 s)) \<and> is_upper (s ! 9))"

definition normalize_pan_warns :: "string \<Rightarrow> bool" where
  "normalize_pan_warns pan_number =
     (pan_number \<noteq> [] \<and> (length (normalize_pan pan_number) \<noteq> 10
                            \<or> \<not> pan_shape (normalize_pan pan_number)))"

subsection \<open>Python exceptions\<close>

datatype py_error =
    ValueError string
  | IndexError
  | ZeroDivisionError
  | TypeError string
  | IntegrityError string
  | MigrationError string string
  | Exception string

subsection \<open>Duplicate groups (\<^verbatim>\<open>duplicate_data_identifier.py\<close>)\<close>

text \<open>
  One member of a duplicate group, as \<^verbatim>\<open>scan_aadhaar_duplicates\<close> and
  \<^verbatim>\<open>scan_pan_duplicates\<close> build it from a row of the join of \<^verbatim>\<open>extracted_fields\<close>
  with the documents table.  The Aadhaar scanner adds gender and address, the PAN scanner
  the father's name.  \<^verbatim>\<open>created_at\<close> is declared \<^verbatim>\<open>TEXT DEFAULT CURRENT_TIMESTAMP\<close> and
  no insert of the repository supplies it, so it is a string.
\<close>

record record_info =
  field_id :: int
  document_id :: int
  name :: "string option"
  dob :: "string option"
  file_path :: "string option"
  extraction_timestamp :: "string option"
  extraction_confidence :: "real option"
  created_at :: string

record aadhaar_record = record_info +
  gender :: "string option"
  address :: "string option"

record pan_record = record_info +
  fathers_name :: "string option"

record analysis =
  same_name :: bool
  same_dob :: bool
  confidence_scores :: "real list"
  file_paths :: "string option list"
  earliest :: "string option"
  latest :: "string option"
  unique_names :: "string list"
  unique_dobs :: "string list"
  avg_confidence :: real

record aadhaar_analysis = analysis +
  same_gender :: bool
  unique_genders :: "string list"

record pan_analysis = analysis +
  same_father_name :: bool
  unique_father_names :: "string list"

text \<open>
  The dictionary a scanner appends for one identifier: the stored identifier (key
  \<^verbatim>\<open>aadhaar_number\<close> or \<^verbatim>\<open>pan_number\<close>), its normal form, the SQL count and the
  members with their analysis.
\<close>

record ('r, 'a) duplicate_info =
  number :: string
  normalized :: string
  duplicate_count :: nat
  records :: "'r list"
  analysis :: 'a

text \<open>\<^verbatim>\<open>x or 0\<close> on a confidence that may be \<^verbatim>\<open>None\<close>.\<close>

definition or_0 :: "real option \<Rightarrow> real" where
  "or_0 c = (case c of None \<Rightarrow> 0 | Some v \<Rightarrow> v)"

text \<open>Truthiness of an optional string: neither \<^verbatim>\<open>None\<close> nor empty.\<close>

definition truthy :: "string option \<Rightarrow> bool" where
  "truthy v = (case v of None \<Rightarrow> False | Some s \<Rightarrow> s \<noteq> [])"

subsection \<open>Cleanup planning (\<^verbatim>\<open>data_cleanup_migrator.py\<close>)\<close>

text \<open>
  \<^verbatim>\<open>sorted(xs, key=k, reverse=True)\<close>: CPython reverses the list, sorts it stably in
  ascending order and reverses the result, so that equal keys keep their original order.
\<close>

definition py_sorted_reverse :: "('a \<Rightarrow> 'k::linorder) \<Rightarrow> 'a list \<Rightarrow> 'a list" where
  "py_sorted_reverse k xs = rev (sort_key k (rev xs))"

text \<open>\<^verbatim>\<open>max(xs, key=k)\<close>: the first element whose key is maximal; an empty list raises.\<close>

fun max_from :: "('a \<Rightarrow> 'k::linorder) \<Rightarrow> 'a \<Rightarrow> 'a list \<Rightarrow> 'a" where
  "max_from k best [] = best"
| "max_from k best (x # xs) = (if k best < k x then max_from k x xs else max_from k best xs)"

definition py_max :: "('a \<Rightarrow> 'k::linorder) \<Rightarrow> 'a list \<Rightarrow> py_error + 'a" where
  "py_max k xs = (case xs of [] \<Rightarrow> Inl (ValueError ''max() arg is an empty sequence'')
                  | x # rest \<Rightarrow> Inr (max_from k x rest))"

text \<open>The sort key \<^verbatim>\<open>(x['extraction_confidence'] or 0, x['created_at'])\<close>.\<close>

definition sort_key_of :: "'r record_info_scheme \<Rightarrow> real \<times> string" where
  "sort_key_of x = (or_0 (extraction_confidence x), created_at x)"

record ('r, 'a) cleanup_plan =
  total_groups :: nat
  records_to_keep :: "'r list"
  records_to_remove :: "'r list"
  merge_candidates :: "'r list"
  manual_review_needed :: "('r, 'a) duplicate_info list"

text \<open>
  The body of the loop of \<^verbatim>\<open>analyze_duplicates_for_cleanup\<close> for one group.  The
  first two branches of the source run the same statements; \<^verbatim>\<open>sorted_records[0]\<close>
  raises on a group without records.
\<close>

definition keep_first_of_sorted ::
  "('r record_info_scheme, 'a) cleanup_plan \<Rightarrow> 'r record_info_scheme list
   \<Rightarrow> py_error + ('r record_info_scheme, 'a) cleanup_plan" where
  "keep_first_of_sorted cleanup_plan recs =
     (case py_sorted_reverse sort_key_of recs of
        [] \<Rightarrow> Inl IndexError
      | best # rest \<Rightarrow>
          Inr (cleanup_plan\<lparr>records_to_keep := records_to_keep cleanup_plan @ [best],
                            records_to_remove := records_to_remove cleanup_plan @ rest\<rparr>))"

definition cleanup_group ::
  "('r record_info_scheme, 'a analysis_scheme) cleanup_plan
   \<Rightarrow> ('r record_info_scheme, 'a analysis_scheme) duplicate_info
   \<Rightarrow> py_error + ('r record_info_scheme, 'a analysis_scheme) cleanup_plan" where
  "cleanup_group cleanup_plan dup_group =
     (let recs = records dup_group; an = analysis dup_group in
      if length recs = 2 \<and> same_name an \<and> same_dob an then
        keep_first_of_sorted cleanup_plan recs
      else if same_name an \<and> same_dob an then
        keep_first_of_sorted cleanup_plan recs
      else if length (unique_names an) = 1 then
        (case py_max (\<lambda>x. or_0 (extraction_confidence x)) recs of
           Inl e \<Rightarrow> Inl e
         | Inr best_record \<Rightarrow>
             Inr (cleanup_plan\<lparr>records_to_keep := records_to_keep cleanup_plan @ [best_record],
                   records_to_remove := records_to_remove cleanup_plan
                                        @ filter (\<lambda>r. r \<noteq> best_record) recs\<rparr>))
      else
        Inr (cleanup_plan\<lparr>manual_review_needed :=
                            manual_review_needed cleanup_plan @ [dup_group]\<rparr>))"

fun cleanup_groups ::
  "('r record_info_scheme, 'a analysis_scheme) cleanup_plan
   \<Rightarrow> ('r record_info_scheme, 'a analysis_scheme) duplicate_info list
   \<Rightarrow> py_error + ('r record_info_scheme, 'a analysis_scheme) cleanup_plan" where
  "cleanup_groups cleanup_plan [] = Inr cleanup_plan"
| "cleanup_groups cleanup_plan (dup_group # rest) =
     (case cleanup_group cleanup_plan dup_group of
        Inl e \<Rightarrow> Inl e
      | Inr plan' \<Rightarrow> cleanup_groups plan' rest)"

definition analyze_duplicates_for_cleanup ::
  "('r record_info_scheme, 'a analysis_scheme) duplicate_info list
   \<Rightarrow> py_error + ('r record_info_scheme, 'a analysis_scheme) cleanup_plan" where
  "analyze_duplicates_for_cleanup duplicates =
     cleanup_groups \<lparr>total_groups = length duplicates, records_to_keep = [],
                     records_to_remove = [], merge_candidates = [],
                     manual_review_needed = []\<rparr> duplicates"

subsection \<open>Scan summary (\<^verbatim>\<open>generate_summary_statistics\<close>)\<close>

datatype severity = LOW | MEDIUM | HIGH

record ('i, 'ra, 'aa, 'rp, 'ap) report_data =
  databases_scanned :: "string list"
  aadhaar_duplicates :: "('ra, 'aa) duplicate_info list"
  pan_duplicates :: "('rp, 'ap) duplicate_info list"
  data_quality_issues :: "'i list"

record summary =
  total_aadhaar_duplicate_groups :: nat
  total_pan_duplicate_groups :: nat
  total_aadhaar_duplicate_records :: nat
  total_pan_duplicate_records :: nat
  data_quality_issues_count :: nat
  databases_scanned_count :: nat
  severity :: severity

definition generate_summary_statistics ::
  "('i, 'ra, 'aa, 'rp, 'ap) report_data \<Rightarrow> summary" where
  "generate_summary_statistics rd =
     (let a = length (aadhaar_duplicates rd); p = length (pan_duplicates rd) in
      \<lparr>total_aadhaar_duplicate_groups = a,
       total_pan_duplicate_groups = p,
       total_aadhaar_duplicate_records = sum_list (map duplicate_count (aadhaar_duplicates rd)),
       total_pan_duplicate_records = sum_list (map duplicate_count (pan_duplicates rd)),
       data_quality_issues_count = length (data_quality_issues rd),
       databases_scanned_count = length (databases_scanned rd),
       severity = (if a > 10 \<or> p > 10 then HIGH
                   else if a > 5 \<or> p > 5 then MEDIUM
                   else LOW)\<rparr>)"

subsection \<open>The two stores\<close>

text \<open>
  A row of the documents table (\<^verbatim>\<open>aadhaar_documents\<close> or \<^verbatim>\<open>pan_documents\<close>), a row of
  \<^verbatim>\<open>extracted_fields\<close> (whose identifier column is \<^verbatim>\<open>"Aadhaar Number"\<close> in one store
  and \<^verbatim>\<open>"PAN Number"\<close> in the other), a row of \<^verbatim>\<open>users\<close> and a row of
  \<^verbatim>\<open>user_documents\<close>.  Both stores exist and carry these four tables with their
  \<^verbatim>\<open>user_id\<close> columns, as \<^verbatim>\<open>_init_database\<close> and \<^verbatim>\<open>_ensure_users_tables\<close> create them.
\<close>

record doc_row =
  d_id :: int
  d_file_path :: "string option"
  d_document_type :: "string option"
  d_extraction_timestamp :: "string option"
  d_extraction_confidence :: "real option"
  d_raw_text :: "string option"
  d_user_id :: "string option"
  d_created_at :: string

record field_row =
  ef_id :: int
  ef_document_id :: "int option"
  ef_name :: "string option"
  ef_dob :: "string option"
  ef_number :: "string option"
  ef_user_id :: "string option"

record aadhaar_field_row = field_row +
  ef_gender :: "string option"
  ef_address :: "string option"

record pan_field_row = field_row +
  ef_fathers_name :: "string option"

record user_row =
  u_user_id :: string
  u_aadhaar_number :: "string option"
  u_primary_name :: string
  u_created_at :: string
  u_updated_at :: string
  u_document_count :: int

record user_document_row =
  ud_user_id :: string
  ud_document_type :: string
  ud_document_id :: int
  ud_created_at :: string

record 'f store =
  docs :: "doc_row list"
  extracted_fields :: "'f list"
  users :: "user_row list"
  user_documents :: "user_document_row list"
  indexes :: "string list"

subsection \<open>DuplicateScanner (\<^verbatim>\<open>scan_aadhaar_duplicates\<close>, \<^verbatim>\<open>scan_pan_duplicates\<close>)\<close>

text \<open>SQL \<^verbatim>\<open>TRIM(x)\<close> removes spaces at both ends.\<close>

definition sql_trim :: "string \<Rightarrow> string" where
  "sql_trim s = rev (dropWhile (\<lambda>c. c = CHR '' '') (rev (dropWhile (\<lambda>c. c = CHR '' '') s)))"

text \<open>
  The first query: the stored identifier values that are not \<^verbatim>\<open>NULL\<close>, not empty and
  not blank, grouped by the stored value, with their counts, where the count exceeds 1,
  ordered by descending count and then by value.
\<close>

definition identifier_values :: "'f field_row_scheme list \<Rightarrow> string list" where
  "identifier_values rows =
     concat (map (\<lambda>r. case ef_number r of None \<Rightarrow> []
                        | Some v \<Rightarrow> if v \<noteq> [] \<and> sql_trim v \<noteq> [] then [v] else []) rows)"

definition duplicate_groups :: "'f field_row_scheme list \<Rightarrow> (string \<times> nat) list" where
  "duplicate_groups rows =
     (let vals = identifier_values rows in
      sort_key (\<lambda>(v, c). (- int c, v))
        (filter (\<lambda>(v, c). c > 1) (map (\<lambda>v. (v, count_list vals v)) (remdups vals))))"

text \<open>
  The second query: the rows of \<^verbatim>\<open>extracted_fields\<close> holding the value, joined with their
  document, ordered by the document's \<^verbatim>\<open>created_at\<close>.
\<close>

definition joined_rows ::
  "'f field_row_scheme store \<Rightarrow> string \<Rightarrow> ('f field_row_scheme \<times> doc_row) list" where
  "joined_rows db v =
     sort_key (\<lambda>(f, d). d_created_at d)
       (concat (map (\<lambda>f. if ef_number f = Some v
                           then map (\<lambda>d. (f, d)) (filter (\<lambda>d. ef_document_id f = Some (d_id d)) (docs db))
                           else []) (extracted_fields db)))"

definition aadhaar_record_info :: "aadhaar_field_row \<times> doc_row \<Rightarrow> aadhaar_record" where
  "aadhaar_record_info fd =
     (case fd of (f, d) \<Rightarrow>
        \<lparr>field_id = ef_id f, document_id = d_id d, name = ef_name f, dob = ef_dob f,
         file_path = d_file_path d, extraction_timestamp = d_extraction_timestamp d,
         extraction_confidence = d_extraction_confidence d, created_at = d_created_at d,
         gender = ef_gender f, address = ef_address f\<rparr>)"

definition pan_record_info :: "pan_field_row \<times> doc_row \<Rightarrow> pan_record" where
  "pan_record_info fd =
     (case fd of (f, d) \<Rightarrow>
        \<lparr>field_id = ef_id f, document_id = d_id d, name = ef_name f, dob = ef_dob f,
         file_path = d_file_path d, extraction_timestamp = d_extraction_timestamp d,
         extraction_confidence = d_extraction_confidence d, created_at = d_created_at d,
         fathers_name = ef_fathers_name f\<rparr>)"

text \<open>
  The values a loop adds to one of its sets: \<^verbatim>\<open>if v: s.add(g(v))\<close> for each member.  A
  Python set is kept as the list of its distinct elements.
\<close>

definition collect :: "(string \<Rightarrow> string) \<Rightarrow> string option list \<Rightarrow> string list" where
  "collect g vs = remdups (concat (map (\<lambda>v. case v of None \<Rightarrow> []
                                            | Some s \<Rightarrow> if s \<noteq> [] then [g s] else []) vs))"

text \<open>The running \<^verbatim>\<open>date_range\<close> of the loop.\<close>

fun date_range :: "string option \<times> string option \<Rightarrow> string list \<Rightarrow> string option \<times> string option" where
  "date_range el [] = el"
| "date_range (e, l) (c # cs) =
     date_range (case e of None \<Rightarrow> Some c
                 | Some e' \<Rightarrow> if e' = [] \<or> c < e' then Some c else e,
                 case l of None \<Rightarrow> Some c
                 | Some l' \<Rightarrow> if l' = [] \<or> c > l' then Some c else l) cs"

text \<open>\<^verbatim>\<open>sum(scores) / len(scores)\<close>, which raises on an empty list.\<close>

definition average :: "real list \<Rightarrow> py_error + real" where
  "average scores = (if scores = [] then Inl ZeroDivisionError
                     else Inr (sum_list scores / real (length scores)))"

definition base_analysis :: "'r record_info_scheme list \<Rightarrow> real \<Rightarrow> analysis" where
  "base_analysis recs avg =
     (let names = collect (\<lambda>s. upper (strip s)) (map name recs);
          dobs = collect (\<lambda>s. s) (map dob recs);
          range = date_range (None, None) (map created_at recs) in
      \<lparr>same_name = (length names \<le> 1), same_dob = (length dobs \<le> 1),
       confidence_scores = map (\<lambda>r. or_0 (extraction_confidence r)) recs,
       file_paths = map file_path recs,
       earliest = fst range, latest = snd range,
       unique_names = names, unique_dobs = dobs, avg_confidence = avg\<rparr>)"

definition aadhaar_duplicate_info ::
  "aadhaar_field_row store \<Rightarrow> string \<times> nat
   \<Rightarrow> py_error + (aadhaar_record, aadhaar_analysis) duplicate_info" where
  "aadhaar_duplicate_info db vc =
     (case vc of (aadhaar_number, cnt) \<Rightarrow>
        let recs = map aadhaar_record_info (joined_rows db aadhaar_number);
            genders = collect upper (map gender recs) in
        case average (map (\<lambda>r. or_0 (extraction_confidence r)) recs) of
          Inl e \<Rightarrow> Inl e
        | Inr avg \<Rightarrow>
            Inr \<lparr>number = aadhaar_number, normalized = normalize_aadhaar aadhaar_number,
                 duplicate_count = cnt, records = recs,
                 analysis = analysis.extend (base_analysis recs avg)
                   (aadhaar_analysis.fields (length genders \<le> 1) genders)\<rparr>)"

definition pan_duplicate_info ::
  "pan_field_row store \<Rightarrow> string \<times> nat
   \<Rightarrow> py_error + (pan_record, pan_analysis) duplicate_info" where
  "pan_duplicate_info db vc =
     (case vc of (pan_number, cnt) \<Rightarrow>
        let recs = map pan_record_info (joined_rows db pan_number);
            father_names = collect (\<lambda>s. upper (strip s)) (map fathers_name recs) in
        case average (map (\<lambda>r. or_0 (extraction_confidence r)) recs) of
          Inl e \<Rightarrow> Inl e
        | Inr avg \<Rightarrow>
            Inr \<lparr>number = pan_number, normalized = normalize_pan pan_number,
                 duplicate_count = cnt, records = recs,
                 analysis = analysis.extend (base_analysis recs avg)
                   (pan_analysis.fields (length father_names \<le> 1) father_names)\<rparr>)"

text \<open>
  The loop over the groups.  An exception raised while a group is built leaves the loop;
  the handler of the scanner logs it, and the groups appended so far are returned.
\<close>

fun scan_loop :: "('g \<Rightarrow> py_error + 'd) \<Rightarrow> 'd list \<Rightarrow> 'g list \<Rightarrow> 'd list" where
  "scan_loop build duplicates [] = duplicates"
| "scan_loop build duplicates (g # gs) =
     (case build g of Inl e \<Rightarrow> duplicates
      | Inr info \<Rightarrow> scan_loop build (duplicates @ [info]) gs)"

definition scan_aadhaar_duplicates ::
  "aadhaar_field_row store \<Rightarrow> (aadhaar_record, aadhaar_analysis) duplicate_info list" where
  "scan_aadhaar_duplicates db =
     scan_loop (aadhaar_duplicate_info db) [] (duplicate_groups (extracted_fields db))"

definition scan_pan_duplicates ::
  "pan_field_row store \<Rightarrow> (pan_record, pan_analysis) duplicate_info list" where
  "scan_pan_duplicates db =
     scan_loop (pan_duplicate_info db) [] (duplicate_groups (extracted_fields db))"

subsection \<open>Example stores\<close>

text \<open>
  Two documents and two rows of \<^verbatim>\<open>extracted_fields\<close> that both hold the identifier
  \<^verbatim>\<open>A1\<close>, the name \<^verbatim>\<open>X\<close> and the date of birth \<^verbatim>\<open>1/1/2000\<close>.
\<close>

definition example_doc :: "int \<Rightarrow> string \<Rightarrow> doc_row" where
  "example_doc i created =
     \<lparr>d_id = i, d_file_path = Some ''scan.pdf'', d_document_type = Some ''AADHAAR'',
      d_extraction_timestamp = Some ''2024-01-01T10:00:00'',
      d_extraction_confidence = Some (9 / 10), d_raw_text = None, d_user_id = None,
      d_created_at = created\<rparr>"

definition example_row :: "int \<Rightarrow> string \<Rightarrow> string option \<Rightarrow> aadhaar_field_row" where
  "example_row i num nm =
     \<lparr>ef_id = i, ef_document_id = Some i, ef_name = nm, ef_dob = Some ''1/1/2000'',
      ef_number = Some num, ef_user_id = None, ef_gender = None, ef_address = None\<rparr>"

definition example_store :: "aadhaar_field_row list \<Rightarrow> aadhaar_field_row store" where
  "example_store rows =
     \<lparr>docs = [example_doc 1 ''2024-01-01 10:00:00'', example_doc 2 ''2024-01-02 10:00:00''],
      extracted_fields = rows, users = [], user_documents = [], indexes = []\<rparr>"

definition a1_store :: "aadhaar_field_row store" where
  "a1_store = example_store [example_row 1 ''A1'' (Some ''X''), example_row 2 ''A1'' (Some ''X'')]"

text \<open>The same Aadhaar number stored once with and once without separators.\<close>

definition spaced_store :: "aadhaar_field_row store" where
  "spaced_store = example_store [example_row 1 ''1234 5678 9012'' (Some ''X''),
                                 example_row 2 ''123456789012'' (Some ''X'')]"

text \<open>Two rows of one identifier, one of them without a name.\<close>

definition nameless_store :: "aadhaar_field_row store" where
  "nameless_store = example_store [example_row 1 ''A1'' (Some ''X''), example_row 2 ''A1'' None]"

text \<open>Two rows of one identifier whose names differ.\<close>

definition differing_store :: "aadhaar_field_row store" where
  "differing_store = example_store [example_row 1 ''A1'' (Some ''X''), example_row 2 ''A1'' (Some ''Y'')]"

text \<open>The groups the scanner builds for two of the example stores.\<close>

definition a1_group :: "(aadhaar_record, aadhaar_analysis) duplicate_info" where
  "a1_group = hd (scan_aadhaar_duplicates a1_store)"

definition differing_group :: "(aadhaar_record, aadhaar_analysis) duplicate_info" where
  "differing_group = hd (scan_aadhaar_duplicates differing_store)"

subsection \<open>Dictionaries and log records\<close>

text \<open>
  A value of a Python dictionary built from a database row, and the dictionary as the
  list of its items; \<^verbatim>\<open>d.get(k)\<close> is \<^verbatim>\<open>None\<close> for a key the dictionary does not have.
\<close>

datatype py_value = PyStr string | PyInt int | PyBool bool | PyNone

type_synonym dict = "(string \<times> py_value) list"

definition dict_get :: "dict \<Rightarrow> string \<Rightarrow> py_value" where
  "dict_get d k = (case map_of d k of None \<Rightarrow> PyNone | Some v \<Rightarrow> v)"

definition str_or_none :: "string option \<Rightarrow> py_value" where
  "str_or_none v = (case v of None \<Rightarrow> PyNone | Some s \<Rightarrow> PyStr s)"

text \<open>
  What the logger of \<^verbatim>\<open>DuplicatePreventionService\<close> receives: a plain line, or the
  \<^verbatim>\<open>log_entry\<close> of \<^verbatim>\<open>log_duplicate_attempt\<close> with the attempted data and the existing
  record.
\<close>

record duplicate_log_entry =
  le_timestamp :: string
  le_document_type :: string
  le_attempted_aadhaar_number :: string
  le_attempted_pan_number :: string
  le_attempted_name :: string
  le_attempted_file_path :: string
  le_existing_document_id :: py_value
  le_existing_file_path :: py_value
  le_existing_created_at :: py_value

datatype log_message =
    Line string
  | Invalid_aadhaar_length nat string
  | Duplicate_attempt_blocked duplicate_log_entry

subsection \<open>UserDirectory (\<^verbatim>\<open>user_id_manager.py\<close>)\<close>

text \<open>
  The state the operations work on: the two stores, the cache of the manager, the source
  of \<^verbatim>\<open>uuid.uuid4()\<close> values with the number of values drawn so far, the readings of
  SQLite's \<^verbatim>\<open>CURRENT_TIMESTAMP\<close> and of \<^verbatim>\<open>datetime.now().isoformat()\<close>, the lines
  written to the logger of \<^verbatim>\<open>DuplicatePreventionService\<close> and to the logger of
  \<^verbatim>\<open>DatabaseSchemaManager\<close>, the entries (operation and status) of the file
  \<^verbatim>\<open>migration_log.json\<close>, the backup copies made so far (directory and copied store), and
  whether \<^verbatim>\<open>shutil.copy2\<close> fails.  A database path is one of the two paths the components
  were built with.  Connections do not block each other: a statement acts on the current
  contents of the store.
\<close>

datatype db_path = AADHAAR_DB | PAN_DB

record user_data =
  usr_user_id :: string
  usr_aadhaar_number :: "string option"
  usr_primary_name :: string
  usr_created_at :: string
  usr_updated_at :: string
  usr_document_count :: int
  usr_source_db :: db_path

record system =
  aadhaar_db :: "aadhaar_field_row store"
  pan_db :: "pan_field_row store"
  cache :: "string \<rightharpoonup> user_data"
  uuid_source :: "nat \<Rightarrow> string"
  uuid_next :: nat
  current_timestamp :: string
  datetime_now :: string
  audit_log :: "(log_level \<times> log_message) list"
  schema_log :: "(log_level \<times> string) list"
  migration_log_file :: "(string \<times> string) list"
  backup_files :: "(string \<times> db_path) list"
  copy_fails :: bool

definition users_of :: "db_path \<Rightarrow> system \<Rightarrow> user_row list" where
  "users_of p s = (case p of AADHAAR_DB \<Rightarrow> users (aadhaar_db s) | PAN_DB \<Rightarrow> users (pan_db s))"

definition set_users :: "db_path \<Rightarrow> user_row list \<Rightarrow> system \<Rightarrow> system" where
  "set_users p us s =
     (case p of AADHAAR_DB \<Rightarrow> s\<lparr>aadhaar_db := (aadhaar_db s)\<lparr>users := us\<rparr>\<rparr>
              | PAN_DB \<Rightarrow> s\<lparr>pan_db := (pan_db s)\<lparr>users := us\<rparr>\<rparr>)"

text \<open>The \<^verbatim>\<open>normalize_aadhaar\<close> of the manager: the same substitution, without a warning.\<close>

definition manager_normalize_aadhaar :: "string \<Rightarrow> string" where
  "manager_normalize_aadhaar aadhaar_number =
     (if aadhaar_number = [] then []
      else filter (\<lambda>c. is_digit c \<or> c = CHR ''X'') (upper aadhaar_number))"

definition generate_user_id :: "system \<Rightarrow> string \<times> system" where
  "generate_user_id s = (uuid_source s (uuid_next s), s\<lparr>uuid_next := Suc (uuid_next s)\<rparr>)"

definition user_data_of_row :: "user_row \<Rightarrow> db_path \<Rightarrow> user_data" where
  "user_data_of_row row p =
     \<lparr>usr_user_id = u_user_id row, usr_aadhaar_number = u_aadhaar_number row,
      usr_primary_name = u_primary_name row, usr_created_at = u_created_at row,
      usr_updated_at = u_updated_at row, usr_document_count = u_document_count row,
      usr_source_db = p\<rparr>"

text \<open>
  \<^verbatim>\<open>get_user_by_aadhaar\<close>: the cache first, then the \<^verbatim>\<open>users\<close> table of the Aadhaar store,
  then that of the PAN store; a row found is put into the cache.
\<close>

definition find_user_by_aadhaar :: "string \<Rightarrow> system \<Rightarrow> user_data option" where
  "find_user_by_aadhaar normalized_aadhaar s =
     (case find (\<lambda>r. u_aadhaar_number r = Some normalized_aadhaar) (users_of AADHAAR_DB s) of
        Some row \<Rightarrow> Some (user_data_of_row row AADHAAR_DB)
      | None \<Rightarrow>
          (case find (\<lambda>r. u_aadhaar_number r = Some normalized_aadhaar) (users_of PAN_DB s) of
             Some row \<Rightarrow> Some (user_data_of_row row PAN_DB)
           | None \<Rightarrow> None))"

definition get_user_by_aadhaar :: "string \<Rightarrow> system \<Rightarrow> user_data option \<times> system" where
  "get_user_by_aadhaar aadhaar_number s =
     (if aadhaar_number = [] then (None, s)
      else case cache s (manager_normalize_aadhaar aadhaar_number) of
        Some cached_user \<Rightarrow> (Some cached_user, s)
      | None \<Rightarrow>
          (case find_user_by_aadhaar (manager_normalize_aadhaar aadhaar_number) s of
             Some ud \<Rightarrow>
               (Some ud, s\<lparr>cache := (cache s)(manager_normalize_aadhaar aadhaar_number \<mapsto> ud)\<rparr>)
           | None \<Rightarrow> (None, s)))"

definition get_user_by_id :: "string \<Rightarrow> system \<Rightarrow> user_data option" where
  "get_user_by_id uid s =
     (if uid = [] then None
      else case find (\<lambda>r. u_user_id r = uid) (users_of AADHAAR_DB s) of
        Some row \<Rightarrow> Some (user_data_of_row row AADHAAR_DB)
      | None \<Rightarrow>
          (case find (\<lambda>r. u_user_id r = uid) (users_of PAN_DB s) of
             Some row \<Rightarrow> Some (user_data_of_row row PAN_DB)
           | None \<Rightarrow> None))"

text \<open>
  The \<^verbatim>\<open>INSERT INTO users\<close> of \<^verbatim>\<open>create_user\<close>.  The table has \<^verbatim>\<open>user_id\<close> as primary key
  and \<^verbatim>\<open>aadhaar_number\<close> declared \<^verbatim>\<open>UNIQUE\<close>; a row that repeats one of them is refused with
  an \<^verbatim>\<open>IntegrityError\<close> whose message contains \<^verbatim>\<open>UNIQUE constraint failed\<close>.
\<close>

definition insert_user :: "db_path \<Rightarrow> user_row \<Rightarrow> system \<Rightarrow> py_error + system" where
  "insert_user p row s =
     (if list_ex (\<lambda>r. u_user_id r = u_user_id row) (users_of p s) then
        Inl (IntegrityError ''UNIQUE constraint failed: users.user_id'')
      else if u_aadhaar_number row \<noteq> None
              \<and> list_ex (\<lambda>r. u_aadhaar_number r = u_aadhaar_number row) (users_of p s) then
        Inl (IntegrityError ''UNIQUE constraint failed: users.aadhaar_number'')
      else Inr (set_users p (users_of p s @ [row]) s))"

definition create_user ::
  "string option \<Rightarrow> string option \<Rightarrow> db_path \<Rightarrow> system \<Rightarrow> (py_error + string) \<times> system" where
  "create_user aadhaar_number nm p s =
     (case (aadhaar_number, nm) of
        (Some a, Some n) \<Rightarrow>
          if a = [] \<or> n = [] then (Inl (ValueError ''Aadhaar number and name are required''), s)
          else
            let normalized_aadhaar = manager_normalize_aadhaar a;
                (uid, s1) = generate_user_id s in
            (case insert_user p \<lparr>u_user_id = uid, u_aadhaar_number = Some normalized_aadhaar,
                                  u_primary_name = strip n, u_created_at = current_timestamp s1,
                                  u_updated_at = current_timestamp s1, u_document_count = 1\<rparr> s1 of
               Inr s2 \<Rightarrow>
                 (Inr uid,
                  s2\<lparr>cache := (cache s2)(manager_normalize_aadhaar a \<mapsto>
                        \<lparr>usr_user_id = uid, usr_aadhaar_number = Some normalized_aadhaar,
                         usr_primary_name = strip n, usr_created_at = datetime_now s2,
                         usr_updated_at = datetime_now s2, usr_document_count = 1,
                         usr_source_db = p\<rparr>)\<rparr>)
             | Inl e \<Rightarrow>
                 (case get_user_by_aadhaar a s1 of
                    (Some existing_user, s2) \<Rightarrow> (Inr (usr_user_id existing_user), s2)
                  | (None, s2) \<Rightarrow> (Inl (Exception ''Failed to create user''), s2)))
      | _ \<Rightarrow> (Inl (ValueError ''Aadhaar number and name are required''), s))"

text \<open>
  \<^verbatim>\<open>update_user_document_count\<close>: the row is looked up by id in both stores, updated in
  the store it was found in, and its cache entry is dropped when it has an Aadhaar number.
\<close>

definition update_user_document_count :: "string \<Rightarrow> int \<Rightarrow> system \<Rightarrow> bool \<times> system" where
  "update_user_document_count uid increment s =
     (case get_user_by_id uid s of
        None \<Rightarrow> (False, s)
      | Some ud \<Rightarrow>
          let s1 = set_users (usr_source_db ud)
                     (map (\<lambda>r. if u_user_id r = uid
                                 then r\<lparr>u_document_count := u_document_count r + increment,
                                        u_updated_at := current_timestamp s\<rparr>
                                 else r) (users_of (usr_source_db ud) s)) s in
          (True,
           if truthy (usr_aadhaar_number ud)
           then s1\<lparr>cache := (cache s1)(manager_normalize_aadhaar (the (usr_aadhaar_number ud)) := None)\<rparr>
           else s1))"

definition get_or_create_user_id ::
  "string option \<Rightarrow> string option \<Rightarrow> db_path option \<Rightarrow> system \<Rightarrow> (py_error + string) \<times> system" where
  "get_or_create_user_id aadhaar_number nm preferred_db s =
     (case (aadhaar_number, nm) of
        (Some a, Some n) \<Rightarrow>
          if a = [] \<or> n = [] then (Inl (ValueError ''Aadhaar number and name are required''), s)
          else
            (case get_user_by_aadhaar a s of
               (Some existing_user, s1) \<Rightarrow>
                 (Inr (usr_user_id existing_user),
                  snd (update_user_document_count (usr_user_id existing_user) 1 s1))
             | (None, s1) \<Rightarrow>
                 create_user aadhaar_number nm
                   (case preferred_db of None \<Rightarrow> AADHAAR_DB | Some p \<Rightarrow> p) s1)
      | _ \<Rightarrow> (Inl (ValueError ''Aadhaar number and name are required''), s))"

text \<open>
  A fresh system: both stores without rows, an empty cache, and a source of identifiers
  that are pairwise different and not empty.
\<close>

definition example_uuid :: "nat \<Rightarrow> string" where
  "example_uuid i = ''7c9e6679-7425-40de-944b-e07fc1f90ae7'' @ replicate i (CHR ''+'')"

definition empty_store :: "'f store" where
  "empty_store = \<lparr>docs = [], extracted_fields = [], users = [], user_documents = [], indexes = []\<rparr>"

definition fresh_system :: system where
  "fresh_system =
     \<lparr>aadhaar_db = empty_store, pan_db = empty_store, cache = Map.empty,
      uuid_source = example_uuid, uuid_next = 0,
      current_timestamp = ''2024-01-01 10:00:00'', datetime_now = ''2024-01-01T10:00:00'',
      audit_log = [], schema_log = [], migration_log_file = [], backup_files = [],
      copy_fails = False\<rparr>"

subsection \<open>DuplicateGuard (\<^verbatim>\<open>duplicate_prevention_service.py\<close>)\<close>

text \<open>
  \<^verbatim>\<open>check_aadhaar_exists\<close>: the argument is normalized (a wrong length is logged as a
  warning) and compared with the stored \<^verbatim>\<open>"Aadhaar Number"\<close> of the rows of
  \<^verbatim>\<open>extracted_fields\<close> that have a document; the first such row is returned as a
  dictionary.
\<close>

definition first_joined_row ::
  "'f field_row_scheme store \<Rightarrow> string \<Rightarrow> ('f field_row_scheme \<times> doc_row) option" where
  "first_joined_row db v =
     (case concat (map (\<lambda>f. if ef_number f = Some v
                            then map (\<lambda>d. (f, d)) (filter (\<lambda>d. ef_document_id f = Some (d_id d)) (docs db))
                            else []) (extracted_fields db)) of
        [] \<Rightarrow> None
      | fd # _ \<Rightarrow> Some fd)"

definition log_normalize_aadhaar :: "string \<Rightarrow> system \<Rightarrow> system" where
  "log_normalize_aadhaar aadhaar_number s =
     (if normalize_aadhaar_warns aadhaar_number
      then s\<lparr>audit_log := audit_log s @
              [(WARNING, Invalid_aadhaar_length (length (normalize_aadhaar aadhaar_number))
                           aadhaar_number)]\<rparr>
      else s)"

definition check_aadhaar_exists :: "string option \<Rightarrow> system \<Rightarrow> dict option \<times> system" where
  "check_aadhaar_exists aadhaar_number s =
     (case aadhaar_number of
        None \<Rightarrow> (None, s)
      | Some a \<Rightarrow>
          if a = [] then (None, s)
          else
            (case first_joined_row (aadhaar_db s) (normalize_aadhaar a) of
               Some (f, d) \<Rightarrow>
                 (Some [(''exists'', PyBool True),
                        (''field_id'', PyInt (ef_id f)),
                        (''document_id'', (case ef_document_id f of None \<Rightarrow> PyNone | Some i \<Rightarrow> PyInt i)),
                        (''aadhaar_number'', str_or_none (ef_number f)),
                        (''name'', str_or_none (ef_name f)),
                        (''file_path'', str_or_none (d_file_path d)),
                        (''created_at'', PyStr (d_created_at d)),
                        (''database'', PyStr ''aadhaar''),
                        (''table'', PyStr ''extracted_fields'')],
                  log_normalize_aadhaar a s)
             | None \<Rightarrow> (None, log_normalize_aadhaar a s)))"

text \<open>
  \<^verbatim>\<open>validate_document_uniqueness\<close> for the document type \<^verbatim>\<open>AADHAAR\<close>.  The extracted
  data is a dictionary from field names to strings; a field whose value is \<^verbatim>\<open>None\<close> is a
  field the map does not have.
\<close>

definition validate_aadhaar_uniqueness ::
  "(string \<rightharpoonup> string) \<Rightarrow> system \<Rightarrow> (bool \<times> dict option) \<times> system" where
  "validate_aadhaar_uniqueness document_data s =
     (if truthy (document_data ''Aadhaar Number'') then
        (case check_aadhaar_exists (document_data ''Aadhaar Number'') s of
           (Some existing, s1) \<Rightarrow> ((False, Some existing), s1)
         | (None, s1) \<Rightarrow> ((True, None), s1))
      else ((True, None), s))"

definition get_or_empty :: "(string \<rightharpoonup> string) \<Rightarrow> string \<Rightarrow> string" where
  "get_or_empty d k = (case d k of None \<Rightarrow> [] | Some v \<Rightarrow> v)"

definition log_duplicate_attempt ::
  "string \<Rightarrow> (string \<rightharpoonup> string) \<Rightarrow> dict \<Rightarrow> system \<Rightarrow> system" where
  "log_duplicate_attempt document_type attempted_data existing_record s =
     s\<lparr>audit_log := audit_log s @
        [(WARNING, Duplicate_attempt_blocked
           \<lparr>le_timestamp = datetime_now s, le_document_type = document_type,
            le_attempted_aadhaar_number = get_or_empty attempted_data ''Aadhaar Number'',
            le_attempted_pan_number = get_or_empty attempted_data ''PAN Number'',
            le_attempted_name = get_or_empty attempted_data ''Name'',
            le_attempted_file_path = get_or_empty attempted_data ''file_path'',
            le_existing_document_id = dict_get existing_record ''document_id'',
            le_existing_file_path = dict_get existing_record ''file_path'',
            le_existing_created_at = dict_get existing_record ''created_at''\<rparr>)]\<rparr>"

subsection \<open>The ingestion boundary (\<^verbatim>\<open>AadhaarExtractionTool.store_in_database\<close>)\<close>

text \<open>The exceptions of \<^verbatim>\<open>exceptions.py\<close> that the boundary turns into responses.\<close>

datatype user_management_error =
    DuplicateAadhaarError string py_value py_value dict
  | InvalidDocumentDataError string "string list" "string list"
  | DatabaseConstraintError string string string

text \<open>The attributes of \<^verbatim>\<open>DuplicateAadhaarError\<close>.\<close>

fun existing_user_id :: "user_management_error \<Rightarrow> py_value" where
  "existing_user_id (DuplicateAadhaarError a u d r) = u"
| "existing_user_id _ = PyNone"

fun existing_document_id :: "user_management_error \<Rightarrow> py_value" where
  "existing_document_id (DuplicateAadhaarError a u d r) = d"
| "existing_document_id _ = PyNone"

fun existing_record :: "user_management_error \<Rightarrow> dict" where
  "existing_record (DuplicateAadhaarError a u d r) = r"
| "existing_record _ = []"

text \<open>
  What \<^verbatim>\<open>store_in_database\<close> returns: the success dictionary with the document id and
  the user id, the response \<^verbatim>\<open>create_error_response\<close> builds from an exception, or the
  plain error dictionary with its message and optional \<^verbatim>\<open>error_type\<close>.
\<close>

datatype response =
    Stored int string
  | Error_response user_management_error
  | Status_error string "string option"

record extraction_result =
  er_status :: "string option"
  er_file_path :: "string option"
  er_document_type :: "string option"
  er_extraction_timestamp :: "string option"
  er_extracted_data :: "string \<rightharpoonup> string"
  er_raw_text :: "string option"
  er_extraction_confidence :: "real option"

text \<open>The next rowid of a table: one more than the largest id in it.\<close>

definition next_id :: "int list \<Rightarrow> int" where
  "next_id ids = fold max ids 0 + 1"

text \<open>
  The index \<^verbatim>\<open>add_unique_constraints\<close> creates on a column of \<^verbatim>\<open>extracted_fields\<close>:
  \<^verbatim>\<open>idx_extracted_fields_aadhaar_number_unique\<close> for \<^verbatim>\<open>"Aadhaar Number"\<close>.
\<close>

definition aadhaar_index_name :: string where
  "aadhaar_index_name = ''idx_extracted_fields_aadhaar_number_unique''"

text \<open>
  The three inserts of \<^verbatim>\<open>store_in_database\<close>, in one transaction: a \<^verbatim>\<open>NOT NULL\<close> column
  of the documents table without a value, or a repeated identifier under the unique
  index, raises \<^verbatim>\<open>sqlite3.IntegrityError\<close> and nothing is written.
\<close>

definition insert_document ::
  "extraction_result \<Rightarrow> string \<Rightarrow> system \<Rightarrow> py_error + (int \<times> system)" where
  "insert_document extraction_result uid s =
     (let db = aadhaar_db s;
          data = er_extracted_data extraction_result;
          document_id = next_id (map d_id (docs db)) in
      if er_file_path extraction_result = None then
        Inl (IntegrityError ''NOT NULL constraint failed: aadhaar_documents.file_path'')
      else if er_document_type extraction_result = None then
        Inl (IntegrityError ''NOT NULL constraint failed: aadhaar_documents.document_type'')
      else if er_extraction_timestamp extraction_result = None then
        Inl (IntegrityError ''NOT NULL constraint failed: aadhaar_documents.extraction_timestamp'')
      else if aadhaar_index_name \<in> set (indexes db) \<and> data ''Aadhaar Number'' \<noteq> None
              \<and> list_ex (\<lambda>f. ef_number f = data ''Aadhaar Number'') (extracted_fields db) then
        Inl (IntegrityError ''UNIQUE constraint failed: extracted_fields.Aadhaar Number'')
      else
        Inr (document_id,
             s\<lparr>aadhaar_db := db
                 \<lparr>docs := docs db @
                    [\<lparr>d_id = document_id, d_file_path = er_file_path extraction_result,
                      d_document_type = er_document_type extraction_result,
                      d_extraction_timestamp = er_extraction_timestamp extraction_result,
                      d_extraction_confidence = er_extraction_confidence extraction_result,
                      d_raw_text = er_raw_text extraction_result, d_user_id = Some uid,
                      d_created_at = current_timestamp s\<rparr>],
                  extracted_fields := extracted_fields db @
                    [\<lparr>ef_id = next_id (map ef_id (extracted_fields db)),
                      ef_document_id = Some document_id, ef_name = data ''Name'',
                      ef_dob = data ''DOB'', ef_number = data ''Aadhaar Number'',
                      ef_user_id = Some uid, ef_gender = data ''Gender'',
                      ef_address = data ''Address''\<rparr>],
                  user_documents := user_documents db @
                    [\<lparr>ud_user_id = uid, ud_document_type = ''AADHAAR'',
                      ud_document_id = document_id, ud_created_at = current_timestamp s\<rparr>]\<rparr>\<rparr>))"

text \<open>\<^verbatim>\<open>handle_sqlite_error\<close> on the integrity errors above.\<close>

definition handle_sqlite_error :: "string \<Rightarrow> (string \<rightharpoonup> string) \<Rightarrow> user_management_error" where
  "handle_sqlite_error msg data =
     (if msg = ''UNIQUE constraint failed: extracted_fields.Aadhaar Number'' then
        DuplicateAadhaarError (get_or_empty data ''Aadhaar Number'') PyNone PyNone []
      else DatabaseConstraintError ''NOT_NULL'' ''extracted_fields'' msg)"

definition store_in_database :: "extraction_result \<Rightarrow> system \<Rightarrow> response \<times> system" where
  "store_in_database extraction_result s =
     (if er_status extraction_result \<noteq> Some ''success'' then
        (Status_error ''Cannot store failed extraction result'' None, s)
      else
        let extracted_data = er_extracted_data extraction_result;
            aadhaar_number = extracted_data ''Aadhaar Number'';
            nm = extracted_data ''Name'' in
        if \<not> truthy aadhaar_number \<or> \<not> truthy nm then
          (Error_response
             (InvalidDocumentDataError ''AADHAAR''
                (filter (\<lambda>f. \<not> truthy (extracted_data f)) [''Aadhaar Number'', ''Name''])
                [''Aadhaar number and name are required for user management'']), s)
        else
          (case validate_aadhaar_uniqueness extracted_data s of
             ((False, Some existing), s1) \<Rightarrow>
               (Error_response
                  (DuplicateAadhaarError (the aadhaar_number) (dict_get existing ''user_id'')
                     (dict_get existing ''document_id'') existing),
                log_duplicate_attempt ''AADHAAR'' extracted_data existing s1)
           | (_, s1) \<Rightarrow>
               (case get_or_create_user_id aadhaar_number nm (Some AADHAAR_DB) s1 of
                  (Inl e, s2) \<Rightarrow>
                    (Status_error ''Database storage failed'' (Some ''STORAGE_ERROR''), s2)
                | (Inr uid, s2) \<Rightarrow>
                    (case insert_document extraction_result uid s2 of
                       Inr (doc_id, s3) \<Rightarrow> (Stored doc_id uid, s3)
                     | Inl (IntegrityError msg) \<Rightarrow>
                         (Error_response (handle_sqlite_error msg extracted_data), s2)
                     | Inl e \<Rightarrow>
                         (Status_error ''Database storage failed'' (Some ''STORAGE_ERROR''), s2)))))"

text \<open>An extraction result with the identifier and the name given, and nothing else extracted.\<close>

definition example_extraction :: "string \<Rightarrow> string \<Rightarrow> extraction_result" where
  "example_extraction num nm =
     \<lparr>er_status = Some ''success'', er_file_path = Some ''aadhaar.pdf'',
      er_document_type = Some ''AADHAAR'', er_extraction_timestamp = Some ''2024-01-01T10:00:00'',
      er_extracted_data = [''Aadhaar Number'' \<mapsto> num, ''Name'' \<mapsto> nm],
      er_raw_text = None, er_extraction_confidence = Some (7 / 10)\<rparr>"

text \<open>The system after a first ingestion into the fresh system.\<close>

definition after_first_ingestion :: "string \<Rightarrow> system" where
  "after_first_ingestion num =
     snd (store_in_database (example_extraction num ''John Doe'') fresh_system)"

subsection \<open>SchemaMigrator (\<^verbatim>\<open>database_schema_manager.py\<close>)\<close>

definition extracted_fields_of :: "db_path \<Rightarrow> system \<Rightarrow> field_row list" where
  "extracted_fields_of p s =
     (case p of AADHAAR_DB \<Rightarrow> map field_row.truncate (extracted_fields (aadhaar_db s))
              | PAN_DB \<Rightarrow> map field_row.truncate (extracted_fields (pan_db s)))"

definition indexes_of :: "db_path \<Rightarrow> system \<Rightarrow> string list" where
  "indexes_of p s = (case p of AADHAAR_DB \<Rightarrow> indexes (aadhaar_db s) | PAN_DB \<Rightarrow> indexes (pan_db s))"

definition add_index :: "db_path \<Rightarrow> string \<Rightarrow> system \<Rightarrow> system" where
  "add_index p nm s =
     (case p of AADHAAR_DB \<Rightarrow> s\<lparr>aadhaar_db := (aadhaar_db s)\<lparr>indexes := indexes (aadhaar_db s) @ [nm]\<rparr>\<rparr>
              | PAN_DB \<Rightarrow> s\<lparr>pan_db := (pan_db s)\<lparr>indexes := indexes (pan_db s) @ [nm]\<rparr>\<rparr>)"

text \<open>
  The values of a column of \<^verbatim>\<open>extracted_fields\<close>, by its name in the store; \<open>None\<close> for a
  name that is not a column of that table.
\<close>

definition column_values :: "db_path \<Rightarrow> string \<Rightarrow> system \<Rightarrow> py_value list option" where
  "column_values p unique_field s =
     (let common = extracted_fields_of p s in
      if unique_field = ''id'' then Some (map (\<lambda>f. PyInt (ef_id f)) common)
      else if unique_field = ''document_id'' then
        Some (map (\<lambda>f. case ef_document_id f of None \<Rightarrow> PyNone | Some i \<Rightarrow> PyInt i) common)
      else if unique_field = ''Name'' then Some (map (\<lambda>f. str_or_none (ef_name f)) common)
      else if unique_field = ''DOB'' then Some (map (\<lambda>f. str_or_none (ef_dob f)) common)
      else if unique_field = ''user_id'' then Some (map (\<lambda>f. str_or_none (ef_user_id f)) common)
      else case p of
        AADHAAR_DB \<Rightarrow>
          if unique_field = ''Aadhaar Number'' then Some (map (\<lambda>f. str_or_none (ef_number f)) common)
          else if unique_field = ''Gender'' then
            Some (map (\<lambda>f. str_or_none (ef_gender f)) (extracted_fields (aadhaar_db s)))
          else if unique_field = ''Address'' then
            Some (map (\<lambda>f. str_or_none (ef_address f)) (extracted_fields (aadhaar_db s)))
          else None
      | PAN_DB \<Rightarrow>
          if unique_field = ''PAN Number'' then Some (map (\<lambda>f. str_or_none (ef_number f)) common)
          else if unique_field = [CHR ''F'', CHR ''a'', CHR ''t'', CHR ''h'', CHR ''e'', CHR ''r'',
                                  CHR 0x27, CHR ''s'', CHR '' '', CHR ''N'', CHR ''a'', CHR ''m'',
                                  CHR ''e''] then
            Some (map (\<lambda>f. str_or_none (ef_fathers_name f)) (extracted_fields (pan_db s)))
          else None)"

text \<open>\<^verbatim>\<open>str.lower()\<close> and the name of the index for a field of \<^verbatim>\<open>extracted_fields\<close>.\<close>

definition lower_char :: "char \<Rightarrow> char" where
  "lower_char c = (if is_upper c then char_of ((of_char c :: nat) + 32) else c)"

definition index_name :: "string \<Rightarrow> string" where
  "index_name unique_field =
     ''idx_extracted_fields_''
     @ map lower_char (filter (\<lambda>c. c \<noteq> CHR 0x27)
                         (map (\<lambda>c. if c = CHR '' '' then CHR ''_'' else c) unique_field))
     @ ''_unique''"

text \<open>
  \<^verbatim>\<open>add_unique_constraints(db_path, 'extracted_fields', unique_field)\<close>, the only table the
  repository calls it for.  \<^verbatim>\<open>CREATE UNIQUE INDEX\<close> raises when the column does not exist
  or holds a value other than \<^verbatim>\<open>NULL\<close> twice; the handler logs the error and the function
  returns \<^verbatim>\<open>False\<close>.
\<close>

definition add_unique_constraints :: "db_path \<Rightarrow> string \<Rightarrow> system \<Rightarrow> bool \<times> system" where
  "add_unique_constraints p unique_field s =
     (if index_name unique_field \<in> set (indexes_of p s) then (True, s)
      else case column_values p unique_field s of
        None \<Rightarrow>
          (False, s\<lparr>schema_log := schema_log s @
             [(ERROR, ''Failed to add unique constraints: no such column: '' @ unique_field)]\<rparr>)
      | Some vals \<Rightarrow>
          if distinct (filter (\<lambda>v. v \<noteq> PyNone) vals) then
            (True, add_index p (index_name unique_field) s)
          else
            (False, s\<lparr>schema_log := schema_log s @
               [(ERROR, ''Failed to add unique constraints: UNIQUE constraint failed: extracted_fields.''
                        @ unique_field)]\<rparr>))"

text \<open>The system whose Aadhaar store is one of the example stores.\<close>

definition system_with :: "aadhaar_field_row store \<Rightarrow> system" where
  "system_with db = fresh_system\<lparr>aadhaar_db := db\<rparr>"

text \<open>
  Two rows of identifier \<^verbatim>\<open>A1\<close> whose documents do not exist, and two rows of identifier
  \<^verbatim>\<open>B2\<close> with their documents.
\<close>

definition dangling_store :: "aadhaar_field_row store" where
  "dangling_store =
     example_store [(example_row 3 ''A1'' (Some ''X''))\<lparr>ef_document_id := Some 7\<rparr>,
                    (example_row 4 ''A1'' (Some ''X''))\<lparr>ef_document_id := Some 8\<rparr>,
                    example_row 1 ''B2'' (Some ''Y''), example_row 2 ''B2'' (Some ''Y'')]"

definition nameless_group :: "(aadhaar_record, aadhaar_analysis) duplicate_info" where
  "nameless_group = hd (scan_aadhaar_duplicates nameless_store)"

text \<open>Two rows of one identifier, one of them with an empty name.\<close>

definition emptyname_store :: "aadhaar_field_row store" where
  "emptyname_store = example_store [example_row 1 ''A1'' (Some ''X''), example_row 2 ''A1'' (Some [])]"

subsection \<open>Vocabulary for the members of a group\<close>

text \<open>
  The members of a group that have a non-empty name carry the same name after trimming and
  upper-casing; the members that have a non-empty date of birth carry the same date.
\<close>

abbreviation names_agree :: "'r record_info_scheme list \<Rightarrow> bool" where
  "names_agree rs \<equiv>
     (\<forall>a b. Some a \<in> set (map name rs) \<and> a \<noteq> [] \<and> Some b \<in> set (map name rs) \<and> b \<noteq> []
            \<longrightarrow> upper (strip a) = upper (strip b))"

abbreviation dobs_agree :: "'r record_info_scheme list \<Rightarrow> bool" where
  "dobs_agree rs \<equiv>
     (\<forall>a b. Some a \<in> set (map dob rs) \<and> a \<noteq> [] \<and> Some b \<in> set (map dob rs) \<and> b \<noteq> []
            \<longrightarrow> a = b)"

text \<open>
  What the plan holds for one group: \<open>k\<close> is what the group adds to \<^verbatim>\<open>records_to_keep\<close>,
  \<open>r\<close> what it adds to \<^verbatim>\<open>records_to_remove\<close> and \<open>m\<close> what it adds to
  \<^verbatim>\<open>manual_review_needed\<close>.  With agreeing names and dates of birth one member is kept, of
  the highest confidence and, among those, of the latest \<^verbatim>\<open>created_at\<close>, and all others are
  removed; with names that do not agree nothing is kept or removed and the group is listed
  for manual review.
\<close>

abbreviation group_outcome ::
  "('r record_info_scheme, 'a analysis_scheme) duplicate_info
   \<Rightarrow> 'r record_info_scheme list \<Rightarrow> 'r record_info_scheme list
   \<Rightarrow> ('r record_info_scheme, 'a analysis_scheme) duplicate_info list \<Rightarrow> bool" where
  "group_outcome g k r m \<equiv>
     (names_agree (records g) \<and> dobs_agree (records g) \<longrightarrow>
        (\<exists>best. k = [best] \<and> mset (best # r) = mset (records g)
           \<and> (\<forall>x \<in> set (records g).
                 or_0 (extraction_confidence x) < or_0 (extraction_confidence best)
                 \<or> (or_0 (extraction_confidence x) = or_0 (extraction_confidence best)
                     \<and> created_at x \<le> created_at best))
           \<and> length k + length r = length (records g) \<and> m = []))
     \<and> (\<not> names_agree (records g) \<longrightarrow> k = [] \<and> r = [] \<and> m = [g])"

subsection \<open>Schema migration steps (\<^verbatim>\<open>database_schema_manager.py\<close>)\<close>

definition db_stem :: "db_path \<Rightarrow> string" where
  "db_stem p = (case p of AADHAAR_DB \<Rightarrow> ''aadhaar_documents'' | PAN_DB \<Rightarrow> ''pan_documents'')"

text \<open>
  \<^verbatim>\<open>create_backup\<close>: the store is copied into \<^verbatim>\<open>database_backups\<close>; a failure of the copy is
  raised again.
\<close>

definition create_backup :: "db_path \<Rightarrow> system \<Rightarrow> py_error + (string \<times> system)" where
  "create_backup p s =
     (if copy_fails s then Inl (Exception ''copy failed'')
      else Inr (''database_backups/'' @ db_stem p @ ''_backup_'' @ datetime_now s @ ''.db'',
                s\<lparr>backup_files := backup_files s @ [(''database_backups'', p)]\<rparr>))"

text \<open>
  \<^verbatim>\<open>create_users_table\<close>: the two tables exist, so only the index \<^verbatim>\<open>idx_users_aadhaar\<close> on
  \<^verbatim>\<open>users(aadhaar_number)\<close> may be created; with a repeated Aadhaar number its creation
  raises, which is logged, and the function returns \<^verbatim>\<open>False\<close>.
\<close>

definition create_users_table :: "db_path \<Rightarrow> system \<Rightarrow> bool \<times> system" where
  "create_users_table p s =
     (if ''idx_users_aadhaar'' \<in> set (indexes_of p s) then (True, s)
      else if distinct (filter (\<lambda>v. v \<noteq> None) (map u_aadhaar_number (users_of p s))) then
        (True, add_index p ''idx_users_aadhaar'' s)
      else
        (False, s\<lparr>schema_log := schema_log s @
           [(ERROR, ''Failed to create users table: UNIQUE constraint failed: users.aadhaar_number'')]\<rparr>))"

text \<open>\<^verbatim>\<open>add_user_id_columns\<close>: both tables have the column already.\<close>

definition add_user_id_columns :: "db_path \<Rightarrow> system \<Rightarrow> bool \<times> system" where
  "add_user_id_columns p s = (True, s)"

text \<open>\<^verbatim>\<open>add_foreign_key_constraints(db_path, table_name)\<close> switches a pragma on and logs.\<close>

definition add_foreign_key_constraints :: "db_path \<Rightarrow> string \<Rightarrow> system \<Rightarrow> bool \<times> system" where
  "add_foreign_key_constraints p table_name s =
     (True, s\<lparr>schema_log := schema_log s @ [(INFO, ''Enabled foreign key constraints'')]\<rparr>)"

text \<open>
  The migrations call it as \<^verbatim>\<open>self.add_foreign_key_constraints(self.aadhaar_db_path)\<close>, with
  one argument for the two parameters: Python raises \<^verbatim>\<open>TypeError\<close> before the body runs.
\<close>

definition call_add_foreign_key_constraints :: "db_path \<Rightarrow> system \<Rightarrow> py_error + (bool \<times> system)" where
  "call_add_foreign_key_constraints p s =
     Inl (TypeError ''add_foreign_key_constraints() missing 1 required positional argument: table_name'')"

definition log_migration :: "string \<Rightarrow> string \<Rightarrow> system \<Rightarrow> system" where
  "log_migration operation status s =
     s\<lparr>migration_log_file := migration_log_file s @ [(operation, status)]\<rparr>"

text \<open>
  \<^verbatim>\<open>migrate_aadhaar_database\<close> and \<^verbatim>\<open>migrate_pan_database\<close>, which differ in the store, the
  identifier column and the name of the operation.  Any exception of the steps is caught,
  logged as a failed migration, and the function returns \<^verbatim>\<open>False\<close>.
\<close>

definition migrate_database :: "db_path \<Rightarrow> string \<Rightarrow> string \<Rightarrow> system \<Rightarrow> bool \<times> system" where
  "migrate_database p unique_field operation s =
     (case create_backup p s of
        Inl e \<Rightarrow> (False, log_migration operation ''failed'' s)
      | Inr (backup_path, s1) \<Rightarrow>
          (case create_users_table p s1 of
             (False, s2) \<Rightarrow> (False, log_migration operation ''failed'' s2)
           | (True, s2) \<Rightarrow>
               (case add_user_id_columns p s2 of
                  (False, s3) \<Rightarrow> (False, log_migration operation ''failed'' s3)
                | (True, s3) \<Rightarrow>
                    (let (added, s4) = add_unique_constraints p unique_field s3;
                         s5 = (if added then s4
                               else s4\<lparr>schema_log := schema_log s4 @
                                 [(WARNING, ''Failed to add unique constraint - may already exist or have duplicates'')]\<rparr>)
                     in case call_add_foreign_key_constraints p s5 of
                          Inl e \<Rightarrow> (False, log_migration operation ''failed'' s5)
                        | Inr (enabled, s6) \<Rightarrow> (True, log_migration operation ''success'' s6)))))"

definition migrate_aadhaar_database :: "system \<Rightarrow> bool \<times> system" where
  "migrate_aadhaar_database s = migrate_database AADHAAR_DB ''Aadhaar Number'' ''aadhaar_migration'' s"

definition migrate_pan_database :: "system \<Rightarrow> bool \<times> system" where
  "migrate_pan_database s = migrate_database PAN_DB ''PAN Number'' ''pan_migration'' s"

definition migrate_all_databases :: "system \<Rightarrow> bool \<times> system" where
  "migrate_all_databases s =
     (let (aadhaar_success, s1) = migrate_aadhaar_database s;
          (pan_success, s2) = migrate_pan_database s1
      in (aadhaar_success \<and> pan_success, s2))"

section \<open>Verified properties\<close>

subsection \<open>Properties of the normalizers\<close>

lemma upper_char_digit: "is_digit c \<Longrightarrow> upper_char c = c"
  by (simp add: upper_char_def is_digit_def is_lower_def)

lemma upper_char_upper: "is_upper c \<Longrightarrow> upper_char c = c"
  by (simp add: upper_char_def is_upper_def is_lower_def)

lemma upper_char_X: "upper_char (CHR ''X'') = CHR ''X''"
  by (simp add: upper_char_def is_lower_def)

lemma filter_upper_fixed:
  "(\<And>c. P c \<Longrightarrow> upper_char c = c) \<Longrightarrow> filter P (upper (filter P s)) = filter P s"
  by (induction s) (simp_all add: upper_def)

lemma normalize_aadhaar_idem: "normalize_aadhaar (normalize_aadhaar x) = normalize_aadhaar x"
proof -
  have "filter (\<lambda>c. is_digit c \<or> c = CHR ''X'') (upper (filter (\<lambda>c. is_digit c \<or> c = CHR ''X'') s))
        = filter (\<lambda>c. is_digit c \<or> c = CHR ''X'') s" for s
    by (rule filter_upper_fixed) (auto simp: upper_char_digit upper_char_X)
  then show ?thesis by (simp add: normalize_aadhaar_def)
qed

lemma normalize_pan_idem: "normalize_pan (normalize_pan x) = normalize_pan x"
proof -
  have "filter (\<lambda>c. is_upper c \<or> is_digit c) (upper (filter (\<lambda>c. is_upper c \<or> is_digit c) s))
        = filter (\<lambda>c. is_upper c \<or> is_digit c) s" for s
    by (rule filter_upper_fixed) (auto simp: upper_char_digit upper_char_upper)
  then show ?thesis by (simp add: normalize_pan_def)
qed

lemma normalize_aadhaar_example: "normalize_aadhaar ''1234 5678 9012'' = ''123456789012''"
  by (simp add: normalize_aadhaar_def upper_def upper_char_def is_lower_def is_digit_def)

lemma normalize_pan_example: "normalize_pan ''abcde-1234-f'' = ''ABCDE1234F''"
  by code_simp

text \<open>
  Claim C8.  \<^verbatim>\<open>normalize_aadhaar\<close> and \<^verbatim>\<open>normalize_pan\<close> are functions of their
  argument alone and idempotent: normalizing a normalized value gives it back, for every
  string; and the two documented values hold:
  \<^verbatim>\<open>normalize_aadhaar("1234 5678 9012") == "123456789012"\<close> and
  \<^verbatim>\<open>normalize_pan("abcde-1234-f") == "ABCDE1234F"\<close>.
\<close>

theorem normalizers_idempotent:
  "normalize_aadhaar (normalize_aadhaar x) = normalize_aadhaar x
   \<and> normalize_pan (normalize_pan y) = normalize_pan y
   \<and> normalize_aadhaar ''1234 5678 9012'' = ''123456789012''
   \<and> normalize_pan ''abcde-1234-f'' = ''ABCDE1234F''"
  by (simp only: normalize_aadhaar_idem normalize_pan_idem normalize_aadhaar_example
      normalize_pan_example)

subsection \<open>Cleanup planning and severity\<close>

lemma py_sorted_reverse_mset: "mset (py_sorted_reverse k xs) = mset xs"
  by (simp add: py_sorted_reverse_def mset_sort)

lemma py_sorted_reverse_Nil_iff: "py_sorted_reverse k xs = [] \<longleftrightarrow> xs = []"
  using py_sorted_reverse_mset [where k = k and xs = xs] by (metis mset_zero_iff)

lemma py_sorted_reverse_hd_max:
  assumes "py_sorted_reverse k xs = best # rest" and "x \<in> set xs"
  shows "k x \<le> k best"
proof -
  have s: "sorted (map k (sort_key k (rev xs)))" by (rule sorted_sort_key)
  from assms(1) have e: "sort_key k (rev xs) = rev rest @ [best]"
    by (metis py_sorted_reverse_def rev.simps(2) rev_rev_ident)
  from assms(2) have "x \<in> set (sort_key k (rev xs))" by simp
  with e have "x \<in> set (rev rest) \<or> x = best" by auto
  moreover from s e have "\<forall>y \<in> set (rev rest). k y \<le> k best"
    by (simp add: sorted_append)
  ultimately show ?thesis by auto
qed

text \<open>
  Claim C10.  The severity of the scan summary is \<open>HIGH\<close> exactly when the number of
  Aadhaar duplicate groups or the number of PAN duplicate groups exceeds 10; otherwise it
  is \<open>MEDIUM\<close> exactly when one of the two numbers exceeds 5; otherwise it is \<open>LOW\<close>.
\<close>

theorem severity_thresholds:
  "(severity (generate_summary_statistics rd) = HIGH)
     = (length (aadhaar_duplicates rd) > 10 \<or> length (pan_duplicates rd) > 10)
   \<and> (severity (generate_summary_statistics rd) = MEDIUM)
     = (\<not> (length (aadhaar_duplicates rd) > 10 \<or> length (pan_duplicates rd) > 10)
        \<and> (length (aadhaar_duplicates rd) > 5 \<or> length (pan_duplicates rd) > 5))
   \<and> (severity (generate_summary_statistics rd) = LOW)
     = (\<not> (length (aadhaar_duplicates rd) > 5 \<or> length (pan_duplicates rd) > 5))"
  by (simp add: generate_summary_statistics_def Let_def)

lemma keep_first_of_sorted_ok:
  assumes "recs \<noteq> []"
  shows "\<exists>best rest. keep_first_of_sorted p recs
            = Inr (p\<lparr>records_to_keep := records_to_keep p @ [best],
                      records_to_remove := records_to_remove p @ rest\<rparr>)
          \<and> py_sorted_reverse sort_key_of recs = best # rest"
proof (cases "py_sorted_reverse sort_key_of recs")
  case Nil
  with assms show ?thesis by (simp add: py_sorted_reverse_Nil_iff)
next
  case (Cons b r)
  then show ?thesis by (simp add: keep_first_of_sorted_def)
qed

lemma sort_key_of_le:
  "sort_key_of r \<le> sort_key_of b \<longleftrightarrow>
     or_0 (extraction_confidence r) < or_0 (extraction_confidence b)
     \<or> (or_0 (extraction_confidence r) = or_0 (extraction_confidence b) \<and> created_at r \<le> created_at b)"
  by (auto simp: sort_key_of_def less_eq_prod_def)

subsection \<open>The duplicate scanner\<close>

lemma set_identifier_values:
  "set (identifier_values rows)
     = {v. v \<noteq> [] \<and> sql_trim v \<noteq> [] \<and> (\<exists>r \<in> set rows. ef_number r = Some v)}"
  by (auto simp: identifier_values_def split: option.splits if_splits)

lemma count_identifier_values:
  "v \<noteq> [] \<Longrightarrow> sql_trim v \<noteq> [] \<Longrightarrow>
   count_list (identifier_values rows) v = length (filter (\<lambda>r. ef_number r = Some v) rows)"
  by (induction rows) (auto simp: identifier_values_def split: option.splits)

lemma map_fst_duplicate_groups_mset:
  "mset (map fst (duplicate_groups rows))
     = mset (filter (\<lambda>v. count_list (identifier_values rows) v > 1)
               (remdups (identifier_values rows)))"
proof -
  have "map fst (filter (\<lambda>(v, c). c > 1) (map (\<lambda>v. (v, f v)) xs)) = filter (\<lambda>v. f v > 1) xs"
    for f :: "string \<Rightarrow> nat" and xs
    by (induction xs) auto
  note m = this
  have "mset (map fst (sort_key k xs)) = mset (map fst xs)"
    for k :: "string \<times> nat \<Rightarrow> int \<times> string" and xs
    by (metis mset_map mset_sort)
  then show ?thesis
    unfolding duplicate_groups_def Let_def by (simp only: m)
qed

lemma distinct_duplicate_groups: "distinct (map fst (duplicate_groups rows))"
proof -
  have "distinct (filter (\<lambda>v. count_list (identifier_values rows) v > 1)
               (remdups (identifier_values rows)))" by simp
  with map_fst_duplicate_groups_mset [of rows] show ?thesis
    by (metis mset_eq_imp_distinct_iff)
qed

lemma set_duplicate_groups:
  "set (map fst (duplicate_groups rows))
     = {v. v \<noteq> [] \<and> sql_trim v \<noteq> []
           \<and> 1 < length (filter (\<lambda>r. ef_number r = Some v) rows)}"
proof -
  have "set (map fst (duplicate_groups rows))
          = set (filter (\<lambda>v. count_list (identifier_values rows) v > 1)
               (remdups (identifier_values rows)))"
    using map_fst_duplicate_groups_mset [of rows] by (metis mset_eq_setD)
  also have "\<dots> = {v. v \<noteq> [] \<and> sql_trim v \<noteq> []
           \<and> 1 < length (filter (\<lambda>r. ef_number r = Some v) rows)}"
  proof -
    have "\<exists>r \<in> set rows. ef_number r = Some x"
      if "1 < length (filter (\<lambda>r. ef_number r = Some x) rows)" for x
    proof -
      from that have "filter (\<lambda>r. ef_number r = Some x) rows \<noteq> []" by auto
      then show ?thesis by (simp add: filter_empty_conv)
    qed
    then show ?thesis
      by (auto simp: set_identifier_values count_identifier_values)
  qed
  finally show ?thesis .
qed


lemma scan_loop_acc: "scan_loop build acc gs = acc @ scan_loop build [] gs"
proof (induction gs arbitrary: acc)
  case Nil
  show ?case by simp
next
  case (Cons g gs)
  show ?case
  proof (cases "build g")
    case (Inl e)
    then show ?thesis by simp
  next
    case (Inr info)
    then show ?thesis using Cons [of "acc @ [info]"] Cons [of "[info]"] by simp
  qed
qed

lemma scan_loop_keys_prefix:
  assumes "\<And>g info. build g = Inr info \<Longrightarrow> key info = k g"
  shows "\<exists>n. map key (scan_loop build [] gs) = take n (map k gs)"
proof (induction gs)
  case Nil
  show ?case by simp
next
  case (Cons g gs)
  show ?case
  proof (cases "build g")
    case (Inl e)
    then have "map key (scan_loop build [] (g # gs)) = take 0 (map k (g # gs))" by simp
    then show ?thesis by blast
  next
    case (Inr info)
    from Cons obtain n where n: "map key (scan_loop build [] gs) = take n (map k gs)" by blast
    have "scan_loop build [] (g # gs) = [info] @ scan_loop build [] gs"
      using Inr scan_loop_acc [of build "[info]" gs] by simp
    with n assms [OF Inr] have "map key (scan_loop build [] (g # gs)) = take (Suc n) (map k (g # gs))"
      by simp
    then show ?thesis by blast
  qed
qed

lemma scan_loop_keys_all:
  assumes "\<And>g info. build g = Inr info \<Longrightarrow> key info = k g"
      and "\<forall>g \<in> set gs. \<exists>info. build g = Inr info"
  shows "map key (scan_loop build [] gs) = map k gs"
  using assms(2)
proof (induction gs)
  case Nil
  show ?case by simp
next
  case (Cons g gs)
  then obtain info where i: "build g = Inr info" by auto
  have "scan_loop build [] (g # gs) = [info] @ scan_loop build [] gs"
    using i scan_loop_acc [of build "[info]" gs] by simp
  with Cons assms(1) [OF i] show ?case by simp
qed

lemma scan_loop_built:
  "info \<in> set (scan_loop build [] gs) \<Longrightarrow> \<exists>g \<in> set gs. build g = Inr info"
proof (induction gs)
  case Nil
  then show ?case by simp
next
  case (Cons g gs)
  show ?case
  proof (cases "build g")
    case (Inl e)
    with Cons.prems show ?thesis by simp
  next
    case (Inr i)
    have "scan_loop build [] (g # gs) = [i] @ scan_loop build [] gs"
      using Inr scan_loop_acc [of build "[i]" gs] by simp
    with Cons Inr show ?thesis by auto
  qed
qed

lemma joined_rows_nonempty:
  assumes "f \<in> set (extracted_fields db)" and "ef_number f = Some v"
      and "d \<in> set (docs db)" and "ef_document_id f = Some (d_id d)"
  shows "joined_rows db v \<noteq> []"
proof -
  have "(f, d) \<in> set (joined_rows db v)"
    using assms unfolding joined_rows_def by (simp only: set_sort) auto
  then show ?thesis by auto
qed

lemma aadhaar_duplicate_info_number:
  "aadhaar_duplicate_info db g = Inr info \<Longrightarrow> number info = fst g"
  by (cases g) (auto simp: aadhaar_duplicate_info_def Let_def split: sum.splits)

lemma aadhaar_duplicate_info_ok:
  "joined_rows db v \<noteq> [] \<Longrightarrow> \<exists>info. aadhaar_duplicate_info db (v, c) = Inr info"
  by (simp add: aadhaar_duplicate_info_def Let_def average_def)


lemma collect_set: "set (collect g vs) = {g s | s. Some s \<in> set vs \<and> s \<noteq> []}"
  by (auto simp: collect_def split: option.splits if_splits)

lemma collect_le_1:
  "length (collect g vs) \<le> 1 \<longleftrightarrow>
     (\<forall>a b. Some a \<in> set vs \<and> a \<noteq> [] \<and> Some b \<in> set vs \<and> b \<noteq> [] \<longrightarrow> g a = g b)"
proof -
  have d: "distinct (collect g vs)" by (simp add: collect_def)
  then have "length (collect g vs) = card (set (collect g vs))"
    by (simp add: distinct_card)
  also have "\<dots> \<le> 1 \<longleftrightarrow> (\<forall>x \<in> set (collect g vs). \<forall>y \<in> set (collect g vs). x = y)"
    using card_le_Suc0_iff_eq [of "set (collect g vs)"] by simp
  finally show ?thesis by (auto simp: collect_set)
qed

lemma aadhaar_duplicate_info_analysis:
  assumes "aadhaar_duplicate_info db g = Inr info"
  shows "same_name (analysis info)
           = (length (collect (\<lambda>s. upper (strip s)) (map name (records info))) \<le> 1)"
    and "unique_names (analysis info) = collect (\<lambda>s. upper (strip s)) (map name (records info))"
    and "records info = map aadhaar_record_info (joined_rows db (fst g))"
    and "records info \<noteq> []"
  using assms
  by (cases g; auto simp: aadhaar_duplicate_info_def Let_def base_analysis_def average_def
        analysis.defs aadhaar_analysis.defs split: sum.splits if_splits)+

lemma a1_store_scan: "map (\<lambda>g. (number g, duplicate_count g, length (records g), same_name (analysis g),
                        same_dob (analysis g))) (scan_aadhaar_duplicates a1_store)
           = [(''A1'', 2, 2, True, True)]"
  by code_simp


lemma scan_numbers_prefix:
  "\<exists>n. map number (scan_aadhaar_duplicates db)
         = take n (map fst (duplicate_groups (extracted_fields db)))"
  unfolding scan_aadhaar_duplicates_def
  by (rule scan_loop_keys_prefix) (rule aadhaar_duplicate_info_number)

subsection \<open>Cleanup planning on scanned groups\<close>

text \<open>
  For the two-record group of the example store the plan keeps the record created last
  (field 2) and removes the other one.
\<close>

lemma a1_group_plan:
  "map_sum id (\<lambda>p. (map field_id (records_to_keep p), map field_id (records_to_remove p)))
     (analyze_duplicates_for_cleanup [a1_group]) = Inr ([2], [1])"
  by code_simp

subsection \<open>The user directory\<close>

lemma first_call:
  assumes "users (aadhaar_db s) = []" "users (pan_db s) = []" "cache s = Map.empty"
      and "a \<noteq> []" "n \<noteq> []"
  shows "get_or_create_user_id (Some a) (Some n) None s
           = (Inr (uuid_source s (uuid_next s)),
              s\<lparr>aadhaar_db := (aadhaar_db s)\<lparr>users :=
                    [\<lparr>u_user_id = uuid_source s (uuid_next s),
                      u_aadhaar_number = Some (manager_normalize_aadhaar a),
                      u_primary_name = strip n, u_created_at = current_timestamp s,
                      u_updated_at = current_timestamp s, u_document_count = 1\<rparr>]\<rparr>,
                uuid_next := Suc (uuid_next s),
                cache := [manager_normalize_aadhaar a \<mapsto>
                        \<lparr>usr_user_id = uuid_source s (uuid_next s),
                         usr_aadhaar_number = Some (manager_normalize_aadhaar a),
                         usr_primary_name = strip n, usr_created_at = datetime_now s,
                         usr_updated_at = datetime_now s, usr_document_count = 1,
                         usr_source_db = AADHAAR_DB\<rparr>]\<rparr>)"
  using assms
  by (simp add: get_or_create_user_id_def get_user_by_aadhaar_def find_user_by_aadhaar_def
      users_of_def create_user_def generate_user_id_def insert_user_def set_users_def Let_def)


lemma second_call:
  assumes "users (aadhaar_db s1) = [\<lparr>u_user_id = uid, u_aadhaar_number = Some (manager_normalize_aadhaar a),
                      u_primary_name = pn, u_created_at = t0,
                      u_updated_at = t0, u_document_count = 1\<rparr>]"
      and "cache s1 (manager_normalize_aadhaar a) = Some ud" "usr_user_id ud = uid"
      and "uid \<noteq> []" "a \<noteq> []" "n \<noteq> []"
  shows "fst (get_or_create_user_id (Some a) (Some n) None s1) = Inr uid"
    and "users (aadhaar_db (snd (get_or_create_user_id (Some a) (Some n) None s1)))
           = [\<lparr>u_user_id = uid, u_aadhaar_number = Some (manager_normalize_aadhaar a),
                      u_primary_name = pn, u_created_at = t0,
                      u_updated_at = current_timestamp s1, u_document_count = 2\<rparr>]"
    and "users (pan_db (snd (get_or_create_user_id (Some a) (Some n) None s1))) = users (pan_db s1)"
  using assms
  by (simp_all add: get_or_create_user_id_def get_user_by_aadhaar_def
      users_of_def update_user_document_count_def get_user_by_id_def user_data_of_row_def
      set_users_def Let_def truthy_def)

text \<open>
  Claim C1.  On a fresh system (no user rows in either store, an empty cache, a non-empty
  generated identifier) and for a non-empty identifier and a non-empty name, two calls of
  \<^verbatim>\<open>get_or_create_user_id(identifier, name)\<close> return the same user id; the user's row has
  \<^verbatim>\<open>document_count\<close> 1 after the first call and 2 after the second, whatever the clock
  shows at the second call.
\<close>

theorem get_or_create_twice:
  assumes "users (aadhaar_db s) = []" and "users (pan_db s) = []" and "cache s = Map.empty"
      and "uuid_source s (uuid_next s) \<noteq> []"
      and "a \<noteq> []" and "n \<noteq> []"
  shows "\<exists>uid s1 s2.
           get_or_create_user_id (Some a) (Some n) None s = (Inr uid, s1)
         \<and> get_or_create_user_id (Some a) (Some n) None
               (s1\<lparr>current_timestamp := t, datetime_now := t'\<rparr>) = (Inr uid, s2)
         \<and> map (\<lambda>r. (u_user_id r, u_document_count r)) (users_of AADHAAR_DB s1) = [(uid, 1)]
         \<and> map (\<lambda>r. (u_user_id r, u_document_count r)) (users_of AADHAAR_DB s2) = [(uid, 2)]
         \<and> users_of PAN_DB s1 = [] \<and> users_of PAN_DB s2 = []
         \<and> map_option usr_document_count (get_user_by_id uid s1) = Some 1
         \<and> map_option usr_document_count (get_user_by_id uid s2) = Some 2"
proof -
  let ?uid = "uuid_source s (uuid_next s)"
  obtain s1 where s1: "get_or_create_user_id (Some a) (Some n) None s = (Inr ?uid, s1)"
    and u1: "users (aadhaar_db s1) = [\<lparr>u_user_id = ?uid,
                      u_aadhaar_number = Some (manager_normalize_aadhaar a),
                      u_primary_name = strip n, u_created_at = current_timestamp s,
                      u_updated_at = current_timestamp s, u_document_count = 1\<rparr>]"
    and p1: "users (pan_db s1) = []"
    and c1: "map_option usr_user_id (cache s1 (manager_normalize_aadhaar a)) = Some ?uid"
    using first_call [OF assms(1,2,3,5,6)] assms(2) by simp
  from c1 obtain ud where ud: "cache s1 (manager_normalize_aadhaar a) = Some ud"
    "usr_user_id ud = ?uid" by auto
  let ?s1' = "s1\<lparr>current_timestamp := t, datetime_now := t'\<rparr>"
  obtain r s2 where s2: "get_or_create_user_id (Some a) (Some n) None ?s1' = (r, s2)"
    by (cases "get_or_create_user_id (Some a) (Some n) None ?s1'")
  have u1': "users (aadhaar_db ?s1') = [\<lparr>u_user_id = ?uid,
                      u_aadhaar_number = Some (manager_normalize_aadhaar a),
                      u_primary_name = strip n, u_created_at = current_timestamp s,
                      u_updated_at = current_timestamp s, u_document_count = 1\<rparr>]"
    using u1 by simp
  have ud': "cache ?s1' (manager_normalize_aadhaar a) = Some ud" using ud(1) by simp
  note sc = second_call [OF u1' ud' ud(2) assms(4,5,6)]
  from sc(1) s2 have r: "r = Inr ?uid" by simp
  from sc(2) s2 have u2: "users (aadhaar_db s2) = [\<lparr>u_user_id = ?uid,
                      u_aadhaar_number = Some (manager_normalize_aadhaar a),
                      u_primary_name = strip n, u_created_at = current_timestamp s,
                      u_updated_at = t, u_document_count = 2\<rparr>]" by simp
  from sc(3) s2 p1 have p2: "users (pan_db s2) = []" by simp
  have "map_option usr_document_count (get_user_by_id ?uid s1) = Some 1"
    "map_option usr_document_count (get_user_by_id ?uid s2) = Some 2"
    using u1 u2 assms(4) by (simp_all add: get_user_by_id_def users_of_def user_data_of_row_def)
  with s1 s2 r u1 u2 p1 p2 show ?thesis
    by (simp add: users_of_def)
qed


theorem get_or_create_twice_witness:
  "users (aadhaar_db fresh_system) = [] \<and> users (pan_db fresh_system) = []
   \<and> cache fresh_system = Map.empty
   \<and> uuid_source fresh_system (uuid_next fresh_system) \<noteq> []
   \<and> (\<exists>uid s1 s2.
           get_or_create_user_id (Some ''123456789012'') (Some ''John Doe'') None fresh_system
             = (Inr uid, s1)
         \<and> get_or_create_user_id (Some ''123456789012'') (Some ''John Doe'') None
               (s1\<lparr>current_timestamp := ''2024-01-02 11:00:00'',
                    datetime_now := ''2024-01-02T11:00:00''\<rparr>) = (Inr uid, s2)
         \<and> map (\<lambda>r. (u_user_id r, u_document_count r)) (users_of AADHAAR_DB s1) = [(uid, 1)]
         \<and> map (\<lambda>r. (u_user_id r, u_document_count r)) (users_of AADHAAR_DB s2) = [(uid, 2)]
         \<and> users_of PAN_DB s1 = [] \<and> users_of PAN_DB s2 = []
         \<and> map_option usr_document_count (get_user_by_id uid s1) = Some 1
         \<and> map_option usr_document_count (get_user_by_id uid s2) = Some 2)"
proof -
  have h: "users (aadhaar_db fresh_system) = []" "users (pan_db fresh_system) = []"
    "cache fresh_system = Map.empty"
    "uuid_source fresh_system (uuid_next fresh_system) \<noteq> []"
    "''123456789012'' \<noteq> []" "''John Doe'' \<noteq> []"
    by (simp_all add: fresh_system_def empty_store_def example_uuid_def)
  from h(1-4) get_or_create_twice [OF h, where t = "''2024-01-02 11:00:00''"
      and t' = "''2024-01-02T11:00:00''"]
  show ?thesis by blast
qed

text \<open>
  Claim C9.  When the identifier or the name is \<^verbatim>\<open>None\<close> or empty, both
  \<^verbatim>\<open>get_or_create_user_id\<close> and \<^verbatim>\<open>create_user\<close> raise \<^verbatim>\<open>ValueError\<close> and the state
  (both stores, the cache, the identifier source) is the one they were called in.
\<close>

theorem value_error_before_any_store:
  assumes "\<not> truthy aadhaar_number \<or> \<not> truthy nm"
  shows "get_or_create_user_id aadhaar_number nm preferred_db s
           = (Inl (ValueError ''Aadhaar number and name are required''), s)
       \<and> create_user aadhaar_number nm p s
           = (Inl (ValueError ''Aadhaar number and name are required''), s)"
  using assms
  by (cases aadhaar_number; cases nm)
     (auto simp: get_or_create_user_id_def create_user_def truthy_def)

theorem value_error_before_any_store_witness:
  "\<not> truthy None
   \<and> get_or_create_user_id None (Some ''John Doe'') None fresh_system
       = (Inl (ValueError ''Aadhaar number and name are required''), fresh_system)
   \<and> create_user None (Some ''John Doe'') AADHAAR_DB fresh_system
       = (Inl (ValueError ''Aadhaar number and name are required''), fresh_system)
   \<and> \<not> truthy (Some [])
   \<and> get_or_create_user_id (Some ''123456789012'') (Some []) None fresh_system
       = (Inl (ValueError ''Aadhaar number and name are required''), fresh_system)
   \<and> create_user (Some ''123456789012'') (Some []) PAN_DB fresh_system
       = (Inl (ValueError ''Aadhaar number and name are required''), fresh_system)"
proof -
  have a: "\<not> truthy None" and b: "\<not> truthy (Some [])" by (simp_all add: truthy_def)
  from a have a': "\<not> truthy None \<or> \<not> truthy (Some ''John Doe'')" by simp
  from b have b': "\<not> truthy (Some ''123456789012'') \<or> \<not> truthy (Some [])" by simp
  from a b value_error_before_any_store [OF a', of None fresh_system AADHAAR_DB]
    value_error_before_any_store [OF b', of None fresh_system PAN_DB]
  show ?thesis by blast
qed

subsection \<open>The ingestion boundary\<close>

text \<open>
  Whenever the lookup finds the submitted identifier, the boundary answers with a
  \<^verbatim>\<open>DuplicateAadhaarError\<close> that carries the existing document id and the dictionary of
  the existing record, and one entry is appended to the audit log.  The dictionary has no
  key \<^verbatim>\<open>user_id\<close>, so the \<^verbatim>\<open>existing_user_id\<close> of the error is \<^verbatim>\<open>None\<close> in every store.
\<close>

lemma duplicate_rejection_general:
  assumes "er_status r = Some ''success''"
      and "er_extracted_data r ''Aadhaar Number'' = Some a" and "a \<noteq> []"
      and "er_extracted_data r ''Name'' = Some n" and "n \<noteq> []"
      and "check_aadhaar_exists (Some a) s = (Some existing, s1)"
  shows "store_in_database r s
           = (Error_response (DuplicateAadhaarError a PyNone (dict_get existing ''document_id'')
                existing),
              log_duplicate_attempt ''AADHAAR'' (er_extracted_data r) existing s1)"
proof -
  have "dict_get existing ''user_id'' = PyNone"
    using assms(6)
    by (auto simp: check_aadhaar_exists_def dict_get_def split: if_splits option.splits)
  with assms show ?thesis
    by (simp add: store_in_database_def validate_aadhaar_uniqueness_def truthy_def Let_def)
qed

text \<open>
  Claim C2.  A first ingestion of the Aadhaar number \<^verbatim>\<open>123456789012\<close> into the fresh system
  creates a user with \<^verbatim>\<open>document_count\<close> 1; the second ingestion of the same number is
  rejected with a \<^verbatim>\<open>DuplicateAadhaarError\<close> that carries the existing document id and
  record, but its \<^verbatim>\<open>existing_user_id\<close> is \<^verbatim>\<open>None\<close> and not the id of that user.
\<close>

theorem duplicate_rejection_lacks_user_id:
  "fst (store_in_database (example_extraction ''123456789012'' ''John Doe'') fresh_system)
     = Stored 1 ''7c9e6679-7425-40de-944b-e07fc1f90ae7''
   \<and> map (\<lambda>r. (u_user_id r, u_document_count r))
         (users_of AADHAAR_DB (after_first_ingestion ''123456789012''))
     = [(''7c9e6679-7425-40de-944b-e07fc1f90ae7'', 1)]
   \<and> fst (store_in_database (example_extraction ''123456789012'' ''Jane Roe'')
           (after_first_ingestion ''123456789012''))
     = Error_response
         (DuplicateAadhaarError ''123456789012'' PyNone (PyInt 1)
            [(''exists'', PyBool True), (''field_id'', PyInt 1), (''document_id'', PyInt 1),
             (''aadhaar_number'', PyStr ''123456789012''), (''name'', PyStr ''John Doe''),
             (''file_path'', PyStr ''aadhaar.pdf''),
             (''created_at'', PyStr ''2024-01-01 10:00:00''),
             (''database'', PyStr ''aadhaar''), (''table'', PyStr ''extracted_fields'')])"
  by code_simp

text \<open>
  The lookup compares the normalized argument with the identifier as it was stored: a
  number submitted twice as \<^verbatim>\<open>1234 5678 9012\<close> is stored twice.
\<close>

lemma spaced_identifier_not_rejected:
  "fst (store_in_database (example_extraction ''1234 5678 9012'' ''John Doe'') fresh_system)
     = Stored 1 ''7c9e6679-7425-40de-944b-e07fc1f90ae7''
   \<and> fst (store_in_database (example_extraction ''1234 5678 9012'' ''John Doe'')
           (after_first_ingestion ''1234 5678 9012''))
     = Stored 2 ''7c9e6679-7425-40de-944b-e07fc1f90ae7''
   \<and> map ef_number (extracted_fields (aadhaar_db (snd
         (store_in_database (example_extraction ''1234 5678 9012'' ''John Doe'')
            (after_first_ingestion ''1234 5678 9012'')))))
     = [Some ''1234 5678 9012'', Some ''1234 5678 9012'']"
  by code_simp

lemma rejection_is_logged:
  "audit_log (snd (store_in_database (example_extraction ''123456789012'' ''Jane Roe'')
                     (after_first_ingestion ''123456789012'')))
     = [(WARNING, Duplicate_attempt_blocked
          \<lparr>le_timestamp = ''2024-01-01T10:00:00'', le_document_type = ''AADHAAR'',
           le_attempted_aadhaar_number = ''123456789012'', le_attempted_pan_number = [],
           le_attempted_name = ''Jane Roe'', le_attempted_file_path = [],
           le_existing_document_id = PyInt 1, le_existing_file_path = PyStr ''aadhaar.pdf'',
           le_existing_created_at = PyStr ''2024-01-01 10:00:00''\<rparr>)]"
  by code_simp

theorem duplicate_rejection_lacks_user_id_witness:
  "\<exists>e. fst (store_in_database (example_extraction ''123456789012'' ''Jane Roe'')
               (after_first_ingestion ''123456789012'')) = Error_response e
       \<and> existing_user_id e = PyNone \<and> existing_document_id e = PyInt 1
       \<and> dict_get (existing_record e) ''name'' = PyStr ''John Doe''"
  using duplicate_rejection_lacks_user_id by (simp add: dict_get_def)

subsection \<open>The uniqueness index\<close>

lemma aadhaar_index_name_eq: "index_name ''Aadhaar Number'' = aadhaar_index_name"
  by code_simp

text \<open>No call of \<^verbatim>\<open>add_unique_constraints\<close> changes a row of a table of either store.\<close>

lemma add_unique_constraints_rows:
  "docs (aadhaar_db (snd (add_unique_constraints p f s))) = docs (aadhaar_db s)
   \<and> extracted_fields (aadhaar_db (snd (add_unique_constraints p f s))) = extracted_fields (aadhaar_db s)
   \<and> users (aadhaar_db (snd (add_unique_constraints p f s))) = users (aadhaar_db s)
   \<and> user_documents (aadhaar_db (snd (add_unique_constraints p f s))) = user_documents (aadhaar_db s)
   \<and> docs (pan_db (snd (add_unique_constraints p f s))) = docs (pan_db s)
   \<and> extracted_fields (pan_db (snd (add_unique_constraints p f s))) = extracted_fields (pan_db s)
   \<and> users (pan_db (snd (add_unique_constraints p f s))) = users (pan_db s)
   \<and> user_documents (pan_db (snd (add_unique_constraints p f s))) = user_documents (pan_db s)"
  by (cases p) (auto simp: add_unique_constraints_def add_index_def split: option.splits)

text \<open>
  Claim C4, amended.  When the index does not exist yet and the column of
  \<^verbatim>\<open>extracted_fields\<close> holds a value other than \<^verbatim>\<open>NULL\<close> more than once,
  \<^verbatim>\<open>add_unique_constraints\<close> returns \<^verbatim>\<open>False\<close>; it raises nothing, and what it logs (at
  level \<^verbatim>\<open>ERROR\<close>) is the database error, without an instruction to run the duplicate
  scanner or the cleanup.  No index is created, and no call, whatever its outcome, changes
  a row of a table of either store.
\<close>

theorem add_unique_constraints_on_duplicates:
  "(index_name f \<notin> set (indexes_of p s) \<and> column_values p f s = Some vals
      \<and> \<not> distinct (filter (\<lambda>v. v \<noteq> PyNone) vals)
    \<longrightarrow> add_unique_constraints p f s
           = (False, s\<lparr>schema_log := schema_log s @
               [(ERROR, ''Failed to add unique constraints: UNIQUE constraint failed: extracted_fields.''
                        @ f)]\<rparr>))
   \<and> docs (aadhaar_db (snd (add_unique_constraints p f s))) = docs (aadhaar_db s)
   \<and> extracted_fields (aadhaar_db (snd (add_unique_constraints p f s))) = extracted_fields (aadhaar_db s)
   \<and> users (aadhaar_db (snd (add_unique_constraints p f s))) = users (aadhaar_db s)
   \<and> user_documents (aadhaar_db (snd (add_unique_constraints p f s))) = user_documents (aadhaar_db s)
   \<and> docs (pan_db (snd (add_unique_constraints p f s))) = docs (pan_db s)
   \<and> extracted_fields (pan_db (snd (add_unique_constraints p f s))) = extracted_fields (pan_db s)
   \<and> users (pan_db (snd (add_unique_constraints p f s))) = users (pan_db s)
   \<and> user_documents (pan_db (snd (add_unique_constraints p f s))) = user_documents (pan_db s)"
  using add_unique_constraints_rows [of p f s] by (simp add: add_unique_constraints_def)

text \<open>
  On the store with two rows of identifier \<^verbatim>\<open>A1\<close> the call returns \<^verbatim>\<open>False\<close> to its caller
  and the only line logged names the failed constraint.
\<close>

theorem add_unique_constraints_counterexample:
  "\<not> distinct (map ef_number (extracted_fields (aadhaar_db (system_with a1_store))))
   \<and> fst (add_unique_constraints AADHAAR_DB ''Aadhaar Number'' (system_with a1_store)) = False
   \<and> schema_log (snd (add_unique_constraints AADHAAR_DB ''Aadhaar Number'' (system_with a1_store)))
       = [(ERROR, ''Failed to add unique constraints: UNIQUE constraint failed: extracted_fields.Aadhaar Number'')]"
  by code_simp

theorem add_unique_constraints_on_duplicates_witness:
  "index_name ''Aadhaar Number'' \<notin> set (indexes_of AADHAAR_DB (system_with a1_store))
   \<and> column_values AADHAAR_DB ''Aadhaar Number'' (system_with a1_store)
       = Some [PyStr ''A1'', PyStr ''A1'']
   \<and> \<not> distinct (filter (\<lambda>v. v \<noteq> PyNone) [PyStr ''A1'', PyStr ''A1''])
   \<and> add_unique_constraints AADHAAR_DB ''Aadhaar Number'' (system_with a1_store)
       = (False, (system_with a1_store)\<lparr>schema_log := schema_log (system_with a1_store) @
               [(ERROR, ''Failed to add unique constraints: UNIQUE constraint failed: extracted_fields.''
                        @ ''Aadhaar Number'')]\<rparr>)
   \<and> extracted_fields (aadhaar_db (snd (add_unique_constraints AADHAAR_DB ''Aadhaar Number''
         (system_with a1_store)))) = extracted_fields a1_store"
proof -
  have h: "index_name ''Aadhaar Number'' \<notin> set (indexes_of AADHAAR_DB (system_with a1_store))"
    "column_values AADHAAR_DB ''Aadhaar Number'' (system_with a1_store)
       = Some [PyStr ''A1'', PyStr ''A1'']"
    "\<not> distinct (filter (\<lambda>v. v \<noteq> PyNone) [PyStr ''A1'', PyStr ''A1''])"
    by code_simp+
  have a: "aadhaar_db (system_with a1_store) = a1_store" by (simp add: system_with_def)
  from h a add_unique_constraints_on_duplicates [of "''Aadhaar Number''" AADHAAR_DB
      "system_with a1_store" "[PyStr ''A1'', PyStr ''A1'']"]
  show ?thesis by simp
qed

subsection \<open>Groups and their members\<close>

lemma dangling_store_scan: "scan_aadhaar_duplicates dangling_store = []
  \<and> duplicate_groups (extracted_fields dangling_store) = [(''A1'', 2), (''B2'', 2)]
  \<and> length (joined_rows dangling_store ''B2'') = 2"
  by code_simp

lemma concat_map_if_filter:
  "concat (map (\<lambda>d. if Q d then [h d] else []) ds) = map h (filter Q ds)"
  by (induction ds) auto

lemma join_comprehension:
  "concat (map (\<lambda>f. if P f then map (\<lambda>d. (f, d)) (filter (Q f) ds) else []) fs)
     = [(f, d). f \<leftarrow> fs, P f, d \<leftarrow> ds, Q f d]"
  by (induction fs) (simp_all add: concat_map_if_filter)

lemma joined_rows_mset:
  "mset (joined_rows db v)
     = mset [(f, d). f \<leftarrow> extracted_fields db, ef_number f = Some v,
                     d \<leftarrow> docs db, ef_document_id f = Some (d_id d)]"
  unfolding joined_rows_def
  by (simp only: mset_sort join_comprehension [where P = "\<lambda>f. ef_number f = Some v"
        and Q = "\<lambda>f d. ef_document_id f = Some (d_id d)"])

lemma joined_rows_sorted: "sorted (map (\<lambda>fd. d_created_at (snd fd)) (joined_rows db v))"
  unfolding joined_rows_def case_prod_unfold by (rule sorted_sort_key)

lemma aadhaar_duplicate_info_members:
  assumes "aadhaar_duplicate_info db (v, c) = Inr g"
  shows "number g = v" and "duplicate_count g = c" and "normalized g = normalize_aadhaar v"
    and "records g = map aadhaar_record_info (joined_rows db v)"
    and "same_dob (analysis g) = (length (collect (\<lambda>s. s) (map dob (records g))) \<le> 1)"
    and "same_gender (analysis g) = (length (collect upper (map gender (records g))) \<le> 1)"
  using assms
  by (auto simp: aadhaar_duplicate_info_def Let_def base_analysis_def average_def
        analysis.defs aadhaar_analysis.defs split: sum.splits if_splits)

lemma duplicate_groups_count:
  assumes "(v, c) \<in> set (duplicate_groups rows)"
  shows "c = length (filter (\<lambda>r. ef_number r = Some v) rows)"
proof -
  from assms have c: "c = count_list (identifier_values rows) v"
    and v: "v \<in> set (identifier_values rows)"
    by (auto simp: duplicate_groups_def Let_def)
  from v have "v \<noteq> []" "sql_trim v \<noteq> []" by (auto simp: set_identifier_values)
  with c show ?thesis by (simp add: count_identifier_values)
qed

lemma duplicate_groups_sorted:
  "sorted (map (\<lambda>(v, c). (- int c, v)) (duplicate_groups rows))"
  unfolding duplicate_groups_def Let_def by (rule sorted_sort_key)


lemma scan_built_from_group:
  assumes "g \<in> set (scan_aadhaar_duplicates db)"
  shows "\<exists>v c. (v, c) \<in> set (duplicate_groups (extracted_fields db))
               \<and> aadhaar_duplicate_info db (v, c) = Inr g"
  using assms unfolding scan_aadhaar_duplicates_def
  by (metis scan_loop_built surj_pair)

lemma scan_group_members:
  assumes "g \<in> set (scan_aadhaar_duplicates db)"
  shows "duplicate_count g
           = length (filter (\<lambda>f. ef_number f = Some (number g)) (extracted_fields db))"
    and "normalized g = normalize_aadhaar (number g)"
    and "mset (records g)
           = mset (map aadhaar_record_info
                 [(f, d). f \<leftarrow> extracted_fields db, ef_number f = Some (number g),
                          d \<leftarrow> docs db, ef_document_id f = Some (d_id d)])"
    and "sorted (map created_at (records g))"
    and "same_name (analysis g)
           = (\<forall>a b. Some a \<in> set (map name (records g)) \<and> a \<noteq> []
                    \<and> Some b \<in> set (map name (records g)) \<and> b \<noteq> []
                  \<longrightarrow> upper (strip a) = upper (strip b))"
    and "same_dob (analysis g)
           = (\<forall>a b. Some a \<in> set (map dob (records g)) \<and> a \<noteq> []
                    \<and> Some b \<in> set (map dob (records g)) \<and> b \<noteq> []
                  \<longrightarrow> a = b)"
    and "unique_names (analysis g) = collect (\<lambda>s. upper (strip s)) (map name (records g))"
    and "records g \<noteq> []"
proof -
  from scan_built_from_group [OF assms] obtain v c
    where vc: "(v, c) \<in> set (duplicate_groups (extracted_fields db))"
      and b: "aadhaar_duplicate_info db (v, c) = Inr g" by blast
  note m = aadhaar_duplicate_info_members [OF b]
  show "duplicate_count g
           = length (filter (\<lambda>f. ef_number f = Some (number g)) (extracted_fields db))"
    using duplicate_groups_count [OF vc] m(1,2) by simp
  show "normalized g = normalize_aadhaar (number g)" using m(1,3) by simp
  have "mset (records g) = image_mset aadhaar_record_info (mset (joined_rows db v))"
    using m(4) by simp
  then show "mset (records g)
           = mset (map aadhaar_record_info
                 [(f, d). f \<leftarrow> extracted_fields db, ef_number f = Some (number g),
                          d \<leftarrow> docs db, ef_document_id f = Some (d_id d)])"
    using m(1) by (simp only: joined_rows_mset mset_map)
  have "map created_at (records g) = map (\<lambda>fd. d_created_at (snd fd)) (joined_rows db v)"
    using m(4) by (simp add: aadhaar_record_info_def case_prod_unfold)
  then show "sorted (map created_at (records g))" by (simp only: joined_rows_sorted)
  show "same_name (analysis g)
           = (\<forall>a b. Some a \<in> set (map name (records g)) \<and> a \<noteq> []
                    \<and> Some b \<in> set (map name (records g)) \<and> b \<noteq> []
                  \<longrightarrow> upper (strip a) = upper (strip b))"
    using aadhaar_duplicate_info_analysis(1) [OF b] by (simp only: collect_le_1)
  show "same_dob (analysis g)
           = (\<forall>a b. Some a \<in> set (map dob (records g)) \<and> a \<noteq> []
                    \<and> Some b \<in> set (map dob (records g)) \<and> b \<noteq> []
                  \<longrightarrow> a = b)"
    using m(5) by (simp only: collect_le_1)
  show "unique_names (analysis g) = collect (\<lambda>s. upper (strip s)) (map name (records g))"
    by (rule aadhaar_duplicate_info_analysis(2) [OF b])
  show "records g \<noteq> []" by (rule aadhaar_duplicate_info_analysis(4) [OF b])
qed

lemma scan_keys_all:
  assumes "\<forall>v. v \<noteq> [] \<and> sql_trim v \<noteq> []
               \<and> 1 < length (filter (\<lambda>f. ef_number f = Some v) (extracted_fields db))
             \<longrightarrow> (\<exists>f \<in> set (extracted_fields db). \<exists>d \<in> set (docs db).
                    ef_number f = Some v \<and> ef_document_id f = Some (d_id d))"
  shows "map (\<lambda>g. (- int (duplicate_count g), number g)) (scan_aadhaar_duplicates db)
           = map (\<lambda>(v, c). (- int c, v)) (duplicate_groups (extracted_fields db))"
  unfolding scan_aadhaar_duplicates_def
proof (rule scan_loop_keys_all)
  show "(- int (duplicate_count info), number info) = (case g of (v, c) \<Rightarrow> (- int c, v))"
    if "aadhaar_duplicate_info db g = Inr info" for g info
    using that aadhaar_duplicate_info_members(1,2) [of db "fst g" "snd g" info] by (cases g) simp
  show "\<forall>g \<in> set (duplicate_groups (extracted_fields db)). \<exists>info. aadhaar_duplicate_info db g = Inr info"
  proof
    fix g assume g: "g \<in> set (duplicate_groups (extracted_fields db))"
    obtain v c where vc: "g = (v, c)" by (cases g)
    with g have "v \<in> set (map fst (duplicate_groups (extracted_fields db)))" by force
    then have "v \<noteq> [] \<and> sql_trim v \<noteq> []
               \<and> 1 < length (filter (\<lambda>r. ef_number r = Some v) (extracted_fields db))"
      by (simp only: set_duplicate_groups) simp
    with assms obtain f d where "f \<in> set (extracted_fields db)" "ef_number f = Some v"
      "d \<in> set (docs db)" "ef_document_id f = Some (d_id d)" by blast
    then have "joined_rows db v \<noteq> []" by (rule joined_rows_nonempty)
    then show "\<exists>info. aadhaar_duplicate_info db g = Inr info"
      unfolding vc by (rule aadhaar_duplicate_info_ok)
  qed
qed


text \<open>
  The scanner groups by the stored value: the same Aadhaar number stored once as
  \<^verbatim>\<open>1234 5678 9012\<close> and once as \<^verbatim>\<open>123456789012\<close> has one normal form, held by two
  records, and the scan reports no group.  A member without a name does not count for
  \<open>same_name\<close>: a group with the names \<^verbatim>\<open>X\<close> and \<^verbatim>\<open>None\<close> has \<open>same_name\<close> true.  And when
  the rows of the first identifier have no document, the scan stops at it: the identifier
  \<^verbatim>\<open>B2\<close>, held by two rows with documents, is not reported.
\<close>

theorem scan_groups_counterexample:
  "normalize_aadhaar ''1234 5678 9012'' = normalize_aadhaar ''123456789012''
   \<and> map ef_number (extracted_fields spaced_store) = [Some ''1234 5678 9012'', Some ''123456789012'']
   \<and> scan_aadhaar_duplicates spaced_store = []
   \<and> map (\<lambda>g. (map name (records g), same_name (analysis g))) (scan_aadhaar_duplicates nameless_store)
        = [([Some ''X'', None], True)]
   \<and> map (\<lambda>f. (ef_number f, ef_document_id f)) (extracted_fields dangling_store)
        = [(Some ''A1'', Some 7), (Some ''A1'', Some 8), (Some ''B2'', Some 1), (Some ''B2'', Some 2)]
   \<and> map d_id (docs dangling_store) = [1, 2]
   \<and> scan_aadhaar_duplicates dangling_store = []"
  by code_simp

text \<open>
  Claim C3, amended.  For a store in which every identifier value that is not empty, not
  blank and held by more than one row of \<^verbatim>\<open>extracted_fields\<close> is held by at least one row
  whose document exists: the scan returns exactly one group per such stored value (the
  value as stored, not its normal form), ordered by descending count and then by value.
  The members of a group are exactly the rows holding that stored value, joined with their
  documents and ordered by \<^verbatim>\<open>created_at\<close>; its count is the number of rows holding the
  value.  \<open>same_name\<close> holds exactly when the names of the members that have a non-empty
  name are equal after trimming and upper-casing, \<open>same_dob\<close> exactly when the non-empty
  dates of birth are equal.  For the store of two records with identifier \<^verbatim>\<open>A1\<close>, name
  \<^verbatim>\<open>X\<close> and date of birth \<^verbatim>\<open>1/1/2000\<close> the scan returns one group of two members with
  \<open>same_name\<close> and \<open>same_dob\<close> true.
\<close>

theorem scan_groups_by_stored_value:
  assumes "\<forall>v. v \<noteq> [] \<and> sql_trim v \<noteq> []
               \<and> 1 < length (filter (\<lambda>f. ef_number f = Some v) (extracted_fields db))
             \<longrightarrow> (\<exists>f \<in> set (extracted_fields db). \<exists>d \<in> set (docs db).
                    ef_number f = Some v \<and> ef_document_id f = Some (d_id d))"
  shows "distinct (map number (scan_aadhaar_duplicates db))
   \<and> set (map number (scan_aadhaar_duplicates db))
        = {v. v \<noteq> [] \<and> sql_trim v \<noteq> []
             \<and> 1 < length (filter (\<lambda>f. ef_number f = Some v) (extracted_fields db))}
   \<and> sorted (map (\<lambda>g. (- int (duplicate_count g), number g)) (scan_aadhaar_duplicates db))
   \<and> (\<forall>g \<in> set (scan_aadhaar_duplicates db).
         duplicate_count g
           = length (filter (\<lambda>f. ef_number f = Some (number g)) (extracted_fields db))
       \<and> normalized g = normalize_aadhaar (number g)
       \<and> mset (records g)
           = mset (map aadhaar_record_info
                 [(f, d). f \<leftarrow> extracted_fields db, ef_number f = Some (number g),
                          d \<leftarrow> docs db, ef_document_id f = Some (d_id d)])
       \<and> sorted (map created_at (records g))
       \<and> same_name (analysis g)
           = (\<forall>a b. Some a \<in> set (map name (records g)) \<and> a \<noteq> []
                    \<and> Some b \<in> set (map name (records g)) \<and> b \<noteq> []
                  \<longrightarrow> upper (strip a) = upper (strip b))
       \<and> same_dob (analysis g)
           = (\<forall>a b. Some a \<in> set (map dob (records g)) \<and> a \<noteq> []
                    \<and> Some b \<in> set (map dob (records g)) \<and> b \<noteq> []
                  \<longrightarrow> a = b))
   \<and> map (\<lambda>g. (number g, duplicate_count g, length (records g), same_name (analysis g),
                  same_dob (analysis g))) (scan_aadhaar_duplicates a1_store)
       = [(''A1'', 2, 2, True, True)]"
proof -
  note k = scan_keys_all [OF assms]
  have "map number (scan_aadhaar_duplicates db)
          = map snd (map (\<lambda>g. (- int (duplicate_count g), number g)) (scan_aadhaar_duplicates db))"
    by simp
  also have "\<dots> = map snd (map (\<lambda>(v, c). (- int c, v)) (duplicate_groups (extracted_fields db)))"
    by (simp only: k)
  also have "\<dots> = map fst (duplicate_groups (extracted_fields db))"
    by (simp add: case_prod_unfold)
  finally have n: "map number (scan_aadhaar_duplicates db)
                     = map fst (duplicate_groups (extracted_fields db))" .
  have 1: "distinct (map number (scan_aadhaar_duplicates db))"
    unfolding n by (rule distinct_duplicate_groups)
  have 2: "set (map number (scan_aadhaar_duplicates db))
        = {v. v \<noteq> [] \<and> sql_trim v \<noteq> []
             \<and> 1 < length (filter (\<lambda>f. ef_number f = Some v) (extracted_fields db))}"
    unfolding n by (rule set_duplicate_groups)
  have 3: "sorted (map (\<lambda>g. (- int (duplicate_count g), number g)) (scan_aadhaar_duplicates db))"
    unfolding k by (rule duplicate_groups_sorted)
  have 4: "\<forall>g \<in> set (scan_aadhaar_duplicates db).
         duplicate_count g
           = length (filter (\<lambda>f. ef_number f = Some (number g)) (extracted_fields db))
       \<and> normalized g = normalize_aadhaar (number g)
       \<and> mset (records g)
           = mset (map aadhaar_record_info
                 [(f, d). f \<leftarrow> extracted_fields db, ef_number f = Some (number g),
                          d \<leftarrow> docs db, ef_document_id f = Some (d_id d)])
       \<and> sorted (map created_at (records g))
       \<and> same_name (analysis g)
           = (\<forall>a b. Some a \<in> set (map name (records g)) \<and> a \<noteq> []
                    \<and> Some b \<in> set (map name (records g)) \<and> b \<noteq> []
                  \<longrightarrow> upper (strip a) = upper (strip b))
       \<and> same_dob (analysis g)
           = (\<forall>a b. Some a \<in> set (map dob (records g)) \<and> a \<noteq> []
                    \<and> Some b \<in> set (map dob (records g)) \<and> b \<noteq> []
                  \<longrightarrow> a = b)"
    by (intro ballI conjI scan_group_members)
  from 1 2 3 4 a1_store_scan show ?thesis by (intro conjI)
qed


theorem scan_groups_by_stored_value_witness:
  "list_all (\<lambda>f. ef_number f = Some ''A1'') (extracted_fields a1_store)
   \<and> list_ex (\<lambda>f. ef_number f = Some ''A1''
                 \<and> list_ex (\<lambda>d. ef_document_id f = Some (d_id d)) (docs a1_store))
        (extracted_fields a1_store)
   \<and> distinct (map number (scan_aadhaar_duplicates a1_store))
   \<and> map number (scan_aadhaar_duplicates a1_store) = [''A1'']
   \<and> map (\<lambda>g. map field_id (records g)) (scan_aadhaar_duplicates a1_store) = [[1, 2]]"
proof -
  have a: "list_all (\<lambda>f. ef_number f = Some ''A1'') (extracted_fields a1_store)"
    by code_simp
  have e: "list_ex (\<lambda>f. ef_number f = Some ''A1''
                 \<and> list_ex (\<lambda>d. ef_document_id f = Some (d_id d)) (docs a1_store))
        (extracted_fields a1_store)"
    by code_simp
  have h: "\<forall>v. v \<noteq> [] \<and> sql_trim v \<noteq> []
               \<and> 1 < length (filter (\<lambda>f. ef_number f = Some v) (extracted_fields a1_store))
             \<longrightarrow> (\<exists>f \<in> set (extracted_fields a1_store). \<exists>d \<in> set (docs a1_store).
                    ef_number f = Some v \<and> ef_document_id f = Some (d_id d))"
  proof (intro allI impI)
    fix v
    assume "v \<noteq> [] \<and> sql_trim v \<noteq> []
               \<and> 1 < length (filter (\<lambda>f. ef_number f = Some v) (extracted_fields a1_store))"
    then have "filter (\<lambda>f. ef_number f = Some v) (extracted_fields a1_store) \<noteq> []" by auto
    then obtain f where "f \<in> set (extracted_fields a1_store)" "ef_number f = Some v"
      by (auto simp: filter_empty_conv)
    with a have v: "v = ''A1''" by (auto simp: list_all_iff)
    from e show "\<exists>f \<in> set (extracted_fields a1_store). \<exists>d \<in> set (docs a1_store).
                    ef_number f = Some v \<and> ef_document_id f = Some (d_id d)"
      unfolding v list_ex_iff by blast
  qed
  have d: "distinct (map number (scan_aadhaar_duplicates a1_store))"
    by (rule scan_groups_by_stored_value [OF h, THEN conjunct1])
  have m: "map number (scan_aadhaar_duplicates a1_store) = [''A1'']"
    "map (\<lambda>g. map field_id (records g)) (scan_aadhaar_duplicates a1_store) = [[1, 2]]"
    by code_simp+
  show ?thesis by (intro conjI a e d m)
qed

subsection \<open>The cleanup plan of a list of groups\<close>

lemma max_from_mem: "max_from k b xs \<in> set (b # xs)"
  by (induction xs arbitrary: b) (auto split: if_splits)

lemma cleanup_group_outcome:
  assumes ne: "records g \<noteq> []"
      and sn: "same_name (analysis g) = names_agree (records g)"
      and sd: "same_dob (analysis g) = dobs_agree (records g)"
      and un: "unique_names (analysis g) = collect (\<lambda>s. upper (strip s)) (map name (records g))"
  shows "\<exists>k r m.
           (\<forall>p. cleanup_group p g
                  = Inr (p\<lparr>records_to_keep := records_to_keep p @ k,
                            records_to_remove := records_to_remove p @ r,
                            manual_review_needed := manual_review_needed p @ m\<rparr>))
           \<and> group_outcome g k r m"
proof -
  consider (auto_resolved) "same_name (analysis g) \<and> same_dob (analysis g)"
    | (one_name) "\<not> (same_name (analysis g) \<and> same_dob (analysis g))"
        "length (unique_names (analysis g)) = 1"
    | (manual) "\<not> (same_name (analysis g) \<and> same_dob (analysis g))"
        "length (unique_names (analysis g)) \<noteq> 1"
    by blast
  then show ?thesis
  proof cases
    case auto_resolved
    from ne obtain best rest where s: "py_sorted_reverse sort_key_of (records g) = best # rest"
      by (cases "py_sorted_reverse sort_key_of (records g)") (simp_all add: py_sorted_reverse_Nil_iff)
    have c: "\<forall>p. cleanup_group p g
                  = Inr (p\<lparr>records_to_keep := records_to_keep p @ [best],
                            records_to_remove := records_to_remove p @ rest,
                            manual_review_needed := manual_review_needed p @ []\<rparr>)"
      using auto_resolved s by (simp add: cleanup_group_def keep_first_of_sorted_def Let_def)
    have m: "mset (best # rest) = mset (records g)"
      using py_sorted_reverse_mset [where k = sort_key_of and xs = "records g"] s by simp
    have o: "\<forall>x \<in> set (records g).
               or_0 (extraction_confidence x) < or_0 (extraction_confidence best)
               \<or> (or_0 (extraction_confidence x) = or_0 (extraction_confidence best)
                   \<and> created_at x \<le> created_at best)"
      using py_sorted_reverse_hd_max [OF s] by (simp add: sort_key_of_le)
    have l: "length [best] + length rest = length (records g)"
      using m by (metis length_Cons mset_eq_length One_nat_def add.commute list.size(3) plus_1_eq_Suc)
    have "group_outcome g [best] rest []"
      using m o l auto_resolved sn by blast
    with c show ?thesis by blast
  next
    case one_name
    from ne obtain x xs where r: "records g = x # xs" by (cases "records g") auto
    let ?best = "max_from (\<lambda>x. or_0 (extraction_confidence x)) x xs"
    have c: "\<forall>p. cleanup_group p g
                  = Inr (p\<lparr>records_to_keep := records_to_keep p @ [?best],
                            records_to_remove := records_to_remove p
                               @ filter (\<lambda>r. r \<noteq> ?best) (records g),
                            manual_review_needed := manual_review_needed p @ []\<rparr>)"
    proof -
      have nf: "(same_name (analysis g) \<and> same_dob (analysis g)) = False"
        using one_name(1) by simp
      have pm: "py_max (\<lambda>x. or_0 (extraction_confidence x)) (records g) = Inr ?best"
        using r by (simp add: py_max_def)
      show ?thesis
        unfolding cleanup_group_def Let_def by (simp only: nf pm one_name(2)) simp
    qed
    from one_name(2) un have "length (collect (\<lambda>s. upper (strip s)) (map name (records g))) \<le> 1"
      by simp
    then have na: "names_agree (records g)" by (simp only: collect_le_1)
    with one_name(1) sn sd have "\<not> dobs_agree (records g)" by blast
    with na have "group_outcome g [?best] (filter (\<lambda>r. r \<noteq> ?best) (records g)) []" by blast
    with c show ?thesis by blast
  next
    case manual
    have c: "\<forall>p. cleanup_group p g
                  = Inr (p\<lparr>records_to_keep := records_to_keep p @ [],
                            records_to_remove := records_to_remove p @ [],
                            manual_review_needed := manual_review_needed p @ [g]\<rparr>)"
    proof -
      have nf: "(same_name (analysis g) \<and> same_dob (analysis g)) = False"
        using manual(1) by simp
      have nl: "(length (unique_names (analysis g)) = 1) = False"
        using manual(2) by simp
      show ?thesis
        unfolding cleanup_group_def Let_def by (simp only: nf nl) simp
    qed
    from manual(1) sn sd have "\<not> (names_agree (records g) \<and> dobs_agree (records g))" by blast
    then have "group_outcome g [] [] [g]" by blast
    with c show ?thesis by blast
  qed
qed


lemma cleanup_groups_generic:
  assumes "\<And>g. g \<in> set gs \<Longrightarrow>
             \<exists>k r m. (\<forall>p. cleanup_group p g
                          = Inr (p\<lparr>records_to_keep := records_to_keep p @ k,
                                    records_to_remove := records_to_remove p @ r,
                                    manual_review_needed := manual_review_needed p @ m\<rparr>))
                     \<and> Q g k r m"
  shows "\<exists>cs. (\<forall>p. cleanup_groups p gs
                  = Inr (p\<lparr>records_to_keep := records_to_keep p @ concat (map fst cs),
                            records_to_remove := records_to_remove p @ concat (map (\<lambda>c. fst (snd c)) cs),
                            manual_review_needed :=
                              manual_review_needed p @ concat (map (\<lambda>c. snd (snd c)) cs)\<rparr>))
              \<and> list_all2 (\<lambda>g c. Q g (fst c) (fst (snd c)) (snd (snd c))) gs cs"
  using assms
proof (induction gs)
  case Nil
  have "(\<forall>p. cleanup_groups p []
                  = Inr (p\<lparr>records_to_keep := records_to_keep p @ concat (map fst []),
                            records_to_remove := records_to_remove p @ concat (map (\<lambda>c. fst (snd c)) []),
                            manual_review_needed :=
                              manual_review_needed p @ concat (map (\<lambda>c. snd (snd c)) [])\<rparr>))
              \<and> list_all2 (\<lambda>g c. Q g (fst c) (fst (snd c)) (snd (snd c))) [] []"
    by simp
  then show ?case by (rule exI)
next
  case (Cons g gs)
  have "g \<in> set (g # gs)" by simp
  from Cons.prems [OF this] obtain k r m where
    c: "\<And>p. cleanup_group p g
                  = Inr (p\<lparr>records_to_keep := records_to_keep p @ k,
                            records_to_remove := records_to_remove p @ r,
                            manual_review_needed := manual_review_needed p @ m\<rparr>)"
    and o: "Q g k r m" by blast
  have "\<exists>cs. (\<forall>p. cleanup_groups p gs
                  = Inr (p\<lparr>records_to_keep := records_to_keep p @ concat (map fst cs),
                            records_to_remove := records_to_remove p @ concat (map (\<lambda>c. fst (snd c)) cs),
                            manual_review_needed :=
                              manual_review_needed p @ concat (map (\<lambda>c. snd (snd c)) cs)\<rparr>))
              \<and> list_all2 (\<lambda>g c. Q g (fst c) (fst (snd c)) (snd (snd c))) gs cs"
  proof (rule Cons.IH)
    fix h assume "h \<in> set gs"
    then have "h \<in> set (g # gs)" by simp
    then show "\<exists>k r m. (\<forall>p. cleanup_group p h
                          = Inr (p\<lparr>records_to_keep := records_to_keep p @ k,
                                    records_to_remove := records_to_remove p @ r,
                                    manual_review_needed := manual_review_needed p @ m\<rparr>))
                     \<and> Q h k r m" by (rule Cons.prems)
  qed
  then obtain cs where
    i: "\<And>p. cleanup_groups p gs
                  = Inr (p\<lparr>records_to_keep := records_to_keep p @ concat (map fst cs),
                            records_to_remove := records_to_remove p @ concat (map (\<lambda>c. fst (snd c)) cs),
                            manual_review_needed :=
                              manual_review_needed p @ concat (map (\<lambda>c. snd (snd c)) cs)\<rparr>)"
    and l: "list_all2 (\<lambda>g c. Q g (fst c) (fst (snd c)) (snd (snd c))) gs cs"
    by blast
  have "(\<forall>p. cleanup_groups p (g # gs)
                  = Inr (p\<lparr>records_to_keep := records_to_keep p @ concat (map fst ((k, r, m) # cs)),
                            records_to_remove :=
                              records_to_remove p @ concat (map (\<lambda>c. fst (snd c)) ((k, r, m) # cs)),
                            manual_review_needed :=
                              manual_review_needed p @ concat (map (\<lambda>c. snd (snd c)) ((k, r, m) # cs))\<rparr>))
        \<and> list_all2 (\<lambda>g c. Q g (fst c) (fst (snd c)) (snd (snd c)))
                   (g # gs) ((k, r, m) # cs)"
    using o l by (simp add: c i)
  then show ?case by (rule exI)
qed


lemma pan_scan_group:
  assumes "g \<in> set (scan_pan_duplicates db)"
  shows "records g \<noteq> []"
    and "same_name (analysis g) = names_agree (records g)"
    and "same_dob (analysis g) = dobs_agree (records g)"
    and "unique_names (analysis g) = collect (\<lambda>s. upper (strip s)) (map name (records g))"
proof -
  from assms obtain vc where b: "pan_duplicate_info db vc = Inr g"
    unfolding scan_pan_duplicates_def by (blast dest: scan_loop_built)
  obtain v c where vc: "vc = (v, c)" by (cases vc)
  from b show ne: "records g \<noteq> []"
    unfolding vc
    by (auto simp: pan_duplicate_info_def Let_def average_def split: sum.splits if_splits)
  from b have sn: "same_name (analysis g)
                     = (length (collect (\<lambda>s. upper (strip s)) (map name (records g))) \<le> 1)"
    and sd: "same_dob (analysis g) = (length (collect (\<lambda>s. s) (map dob (records g))) \<le> 1)"
    and un: "unique_names (analysis g) = collect (\<lambda>s. upper (strip s)) (map name (records g))"
    unfolding vc
    by (auto simp: pan_duplicate_info_def Let_def base_analysis_def average_def
          analysis.defs pan_analysis.defs split: sum.splits if_splits)
  from sn show "same_name (analysis g) = names_agree (records g)" by (simp only: collect_le_1)
  from sd show "same_dob (analysis g) = dobs_agree (records g)" by (simp only: collect_le_1)
  from un show "unique_names (analysis g) = collect (\<lambda>s. upper (strip s)) (map name (records g))" .
qed

lemma analyze_as_cleanup_groups:
  assumes "\<forall>p. cleanup_groups p gs
                  = Inr (p\<lparr>records_to_keep := records_to_keep p @ ks,
                            records_to_remove := records_to_remove p @ rs,
                            manual_review_needed := manual_review_needed p @ ms\<rparr>)"
  shows "analyze_duplicates_for_cleanup gs
           = Inr \<lparr>total_groups = length gs, records_to_keep = ks, records_to_remove = rs,
                  merge_candidates = [], manual_review_needed = ms\<rparr>"
  unfolding analyze_duplicates_for_cleanup_def by (simp add: assms)


lemma plan_of_consistent_groups:
  assumes "\<And>g. g \<in> set gs \<Longrightarrow> records g \<noteq> []"
      and "\<And>g. g \<in> set gs \<Longrightarrow> same_name (analysis g) = names_agree (records g)"
      and "\<And>g. g \<in> set gs \<Longrightarrow> same_dob (analysis g) = dobs_agree (records g)"
      and "\<And>g. g \<in> set gs \<Longrightarrow>
             unique_names (analysis g) = collect (\<lambda>s. upper (strip s)) (map name (records g))"
  shows "\<exists>cs. analyze_duplicates_for_cleanup gs
                = Inr \<lparr>total_groups = length gs, records_to_keep = concat (map fst cs),
                       records_to_remove = concat (map (\<lambda>c. fst (snd c)) cs),
                       merge_candidates = [],
                       manual_review_needed = concat (map (\<lambda>c. snd (snd c)) cs)\<rparr>
              \<and> list_all2 (\<lambda>g c. group_outcome g (fst c) (fst (snd c)) (snd (snd c))) gs cs"
proof -
  have "\<exists>cs. (\<forall>p. cleanup_groups p gs
                  = Inr (p\<lparr>records_to_keep := records_to_keep p @ concat (map fst cs),
                            records_to_remove := records_to_remove p @ concat (map (\<lambda>c. fst (snd c)) cs),
                            manual_review_needed :=
                              manual_review_needed p @ concat (map (\<lambda>c. snd (snd c)) cs)\<rparr>))
              \<and> list_all2 (\<lambda>g c. group_outcome g (fst c) (fst (snd c)) (snd (snd c))) gs cs"
    by (rule cleanup_groups_generic [where Q = "\<lambda>g k r m. group_outcome g k r m"])
       (rule cleanup_group_outcome [OF assms])
  then obtain cs where
    c: "\<forall>p. cleanup_groups p gs
                  = Inr (p\<lparr>records_to_keep := records_to_keep p @ concat (map fst cs),
                            records_to_remove := records_to_remove p @ concat (map (\<lambda>c. fst (snd c)) cs),
                            manual_review_needed :=
                              manual_review_needed p @ concat (map (\<lambda>c. snd (snd c)) cs)\<rparr>)"
    and l: "list_all2 (\<lambda>g c. group_outcome g (fst c) (fst (snd c)) (snd (snd c))) gs cs"
    by (elim exE conjE)
  from analyze_as_cleanup_groups [OF c] l show ?thesis by (intro exI conjI)
qed

text \<open>
  Claim C5, amended.  The plan computed for the groups of a scan, of the Aadhaar store or
  of the PAN store, is the concatenation of what each group contributes, group by group.
  A group whose members agree on their names and on their dates of birth (members without
  a name or a date are not compared) contributes exactly one kept member, of the highest
  confidence (a missing confidence counting as 0) and, among the members of that
  confidence, of the latest \<^verbatim>\<open>created_at\<close>, and all its other members as removed, so kept
  and removed members together are the members of the group.  A group in which two
  members carry different non-empty names contributes nothing kept and nothing removed and
  is listed for manual review.
\<close>

theorem cleanup_plan_of_scan:
  "(\<exists>cs. analyze_duplicates_for_cleanup (scan_aadhaar_duplicates adb)
            = Inr \<lparr>total_groups = length (scan_aadhaar_duplicates adb),
                   records_to_keep = concat (map fst cs),
                   records_to_remove = concat (map (\<lambda>c. fst (snd c)) cs),
                   merge_candidates = [],
                   manual_review_needed = concat (map (\<lambda>c. snd (snd c)) cs)\<rparr>
          \<and> list_all2 (\<lambda>g c. group_outcome g (fst c) (fst (snd c)) (snd (snd c)))
               (scan_aadhaar_duplicates adb) cs)
   \<and> (\<exists>cs. analyze_duplicates_for_cleanup (scan_pan_duplicates pdb)
            = Inr \<lparr>total_groups = length (scan_pan_duplicates pdb),
                   records_to_keep = concat (map fst cs),
                   records_to_remove = concat (map (\<lambda>c. fst (snd c)) cs),
                   merge_candidates = [],
                   manual_review_needed = concat (map (\<lambda>c. snd (snd c)) cs)\<rparr>
          \<and> list_all2 (\<lambda>g c. group_outcome g (fst c) (fst (snd c)) (snd (snd c)))
               (scan_pan_duplicates pdb) cs)"
proof (rule conjI)
  show "\<exists>cs. analyze_duplicates_for_cleanup (scan_aadhaar_duplicates adb)
            = Inr \<lparr>total_groups = length (scan_aadhaar_duplicates adb),
                   records_to_keep = concat (map fst cs),
                   records_to_remove = concat (map (\<lambda>c. fst (snd c)) cs),
                   merge_candidates = [],
                   manual_review_needed = concat (map (\<lambda>c. snd (snd c)) cs)\<rparr>
          \<and> list_all2 (\<lambda>g c. group_outcome g (fst c) (fst (snd c)) (snd (snd c)))
               (scan_aadhaar_duplicates adb) cs"
    by (rule plan_of_consistent_groups)
       (rule scan_group_members(8) scan_group_members(5) scan_group_members(6)
             scan_group_members(7); assumption)+
  show "\<exists>cs. analyze_duplicates_for_cleanup (scan_pan_duplicates pdb)
            = Inr \<lparr>total_groups = length (scan_pan_duplicates pdb),
                   records_to_keep = concat (map fst cs),
                   records_to_remove = concat (map (\<lambda>c. fst (snd c)) cs),
                   merge_candidates = [],
                   manual_review_needed = concat (map (\<lambda>c. snd (snd c)) cs)\<rparr>
          \<and> list_all2 (\<lambda>g c. group_outcome g (fst c) (fst (snd c)) (snd (snd c)))
               (scan_pan_duplicates pdb) cs"
    by (rule plan_of_consistent_groups) (rule pan_scan_group; assumption)+
qed


text \<open>
  A group whose members are named \<^verbatim>\<open>X\<close> and not named at all (\<^verbatim>\<open>NULL\<close>, or the empty
  string) is resolved automatically: the plan keeps the member without a name (field 2,
  created last) and removes the member named \<^verbatim>\<open>X\<close> (field 1); nothing is sent to manual
  review.
\<close>

theorem cleanup_plan_counterexample:
  "map (\<lambda>g. map name (records g)) (scan_aadhaar_duplicates nameless_store) = [[Some ''X'', None]]
   \<and> map_sum id (\<lambda>p. (map field_id (records_to_keep p), map field_id (records_to_remove p),
                        length (manual_review_needed p)))
        (analyze_duplicates_for_cleanup (scan_aadhaar_duplicates nameless_store))
       = Inr ([2], [1], 0)
   \<and> map (\<lambda>g. map name (records g)) (scan_aadhaar_duplicates emptyname_store) = [[Some ''X'', Some []]]
   \<and> map_sum id (\<lambda>p. (map field_id (records_to_keep p), map field_id (records_to_remove p),
                        length (manual_review_needed p)))
        (analyze_duplicates_for_cleanup (scan_aadhaar_duplicates emptyname_store))
       = Inr ([2], [1], 0)"
  by code_simp

lemma a1_scan_is_group: "scan_aadhaar_duplicates a1_store = [a1_group]"
proof -
  have "length (scan_aadhaar_duplicates a1_store) = 1" by code_simp
  then show ?thesis unfolding a1_group_def
    by (cases "scan_aadhaar_duplicates a1_store") simp_all
qed

lemma differing_scan_is_group: "scan_aadhaar_duplicates differing_store = [differing_group]"
proof -
  have "length (scan_aadhaar_duplicates differing_store) = 1" by code_simp
  then show ?thesis unfolding differing_group_def
    by (cases "scan_aadhaar_duplicates differing_store") simp_all
qed

theorem cleanup_plan_of_scan_witness:
  "length (collect (\<lambda>s. upper (strip s)) (map name (records a1_group))) \<le> 1
   \<and> length (collect (\<lambda>s. s) (map dob (records a1_group))) \<le> 1
   \<and> (\<exists>best rest.
         analyze_duplicates_for_cleanup (scan_aadhaar_duplicates a1_store)
           = Inr \<lparr>total_groups = 1, records_to_keep = [best], records_to_remove = rest,
                  merge_candidates = [], manual_review_needed = []\<rparr>
         \<and> mset (best # rest) = mset (records a1_group)
         \<and> length [best] + length rest = length (records a1_group))
   \<and> collect (\<lambda>s. upper (strip s)) (map name (records differing_group)) = [''X'', ''Y'']
   \<and> analyze_duplicates_for_cleanup (scan_aadhaar_duplicates differing_store)
       = Inr \<lparr>total_groups = 1, records_to_keep = [], records_to_remove = [],
              merge_candidates = [], manual_review_needed = [differing_group]\<rparr>"
proof -
  have c1: "length (collect (\<lambda>s. upper (strip s)) (map name (records a1_group))) \<le> 1"
    by code_simp
  have c2: "length (collect (\<lambda>s. s) (map dob (records a1_group))) \<le> 1"
    by code_simp
  have c3: "collect (\<lambda>s. upper (strip s)) (map name (records differing_group)) = [''X'', ''Y'']"
    by code_simp
  have na: "names_agree (records a1_group)" by (rule c1 [unfolded collect_le_1])
  have da: "dobs_agree (records a1_group)" by (rule c2 [unfolded collect_le_1])
  have c4: "\<not> length (collect (\<lambda>s. upper (strip s)) (map name (records differing_group))) \<le> 1"
    unfolding c3 by simp
  have nd: "\<not> names_agree (records differing_group)" by (rule c4 [unfolded collect_le_1])
  \<comment> \<open>the agreeing group\<close>
  from cleanup_plan_of_scan [of a1_store empty_store, THEN conjunct1] obtain cs where
    p: "analyze_duplicates_for_cleanup (scan_aadhaar_duplicates a1_store)
            = Inr \<lparr>total_groups = length (scan_aadhaar_duplicates a1_store),
                   records_to_keep = concat (map fst cs),
                   records_to_remove = concat (map (\<lambda>c. fst (snd c)) cs),
                   merge_candidates = [],
                   manual_review_needed = concat (map (\<lambda>c. snd (snd c)) cs)\<rparr>"
    and l: "list_all2 (\<lambda>g c. group_outcome g (fst c) (fst (snd c)) (snd (snd c)))
               (scan_aadhaar_duplicates a1_store) cs"
    by (elim exE conjE)
  have l': "list_all2 (\<lambda>g c. group_outcome g (fst c) (fst (snd c)) (snd (snd c))) [a1_group] cs"
    using l by (simp only: a1_scan_is_group)
  then obtain c where cs: "cs = [c]"
    by (cases cs) (simp_all only: list_all2_Cons1 list_all2_Nil list.simps, auto simp: list_all2_Nil)
  note o = l' [unfolded cs list_all2_Cons list_all2_Nil, THEN conjunct1]
  from o [THEN conjunct1, THEN mp, OF conjI [OF na da]] obtain best where
    b: "fst c = [best]" "mset (best # fst (snd c)) = mset (records a1_group)"
       "length (fst c) + length (fst (snd c)) = length (records a1_group)" "snd (snd c) = []"
    by (elim exE conjE)
  have a1: "analyze_duplicates_for_cleanup (scan_aadhaar_duplicates a1_store)
           = Inr \<lparr>total_groups = 1, records_to_keep = [best], records_to_remove = fst (snd c),
                  merge_candidates = [], manual_review_needed = []\<rparr>"
    using b(1,4) by (simp add: p [unfolded a1_scan_is_group cs] a1_scan_is_group)
  have a2: "length [best] + length (fst (snd c)) = length (records a1_group)"
    using b(1,3) by simp
  have a: "\<exists>best rest.
         analyze_duplicates_for_cleanup (scan_aadhaar_duplicates a1_store)
           = Inr \<lparr>total_groups = 1, records_to_keep = [best], records_to_remove = rest,
                  merge_candidates = [], manual_review_needed = []\<rparr>
         \<and> mset (best # rest) = mset (records a1_group)
         \<and> length [best] + length rest = length (records a1_group)"
    by (rule exI [of _ best], rule exI [of _ "fst (snd c)"]) (rule conjI a1 b(2) a2)+
  \<comment> \<open>the group with differing names\<close>
  from cleanup_plan_of_scan [of differing_store empty_store, THEN conjunct1] obtain ds where
    q: "analyze_duplicates_for_cleanup (scan_aadhaar_duplicates differing_store)
            = Inr \<lparr>total_groups = length (scan_aadhaar_duplicates differing_store),
                   records_to_keep = concat (map fst ds),
                   records_to_remove = concat (map (\<lambda>c. fst (snd c)) ds),
                   merge_candidates = [],
                   manual_review_needed = concat (map (\<lambda>c. snd (snd c)) ds)\<rparr>"
    and m: "list_all2 (\<lambda>g c. group_outcome g (fst c) (fst (snd c)) (snd (snd c)))
               (scan_aadhaar_duplicates differing_store) ds"
    by (elim exE conjE)
  have m': "list_all2 (\<lambda>g c. group_outcome g (fst c) (fst (snd c)) (snd (snd c)))
              [differing_group] ds"
    using m by (simp only: differing_scan_is_group)
  then obtain d where ds: "ds = [d]"
    by (cases ds) (simp_all only: list_all2_Cons1 list_all2_Nil list.simps, auto simp: list_all2_Nil)
  note od = m' [unfolded ds list_all2_Cons list_all2_Nil, THEN conjunct1]
  note e0 = od [THEN conjunct2, THEN mp, OF nd]
  have e: "fst d = []" "fst (snd d) = []" "snd (snd d) = [differing_group]"
    using e0 by simp_all
  have f: "analyze_duplicates_for_cleanup (scan_aadhaar_duplicates differing_store)
       = Inr \<lparr>total_groups = 1, records_to_keep = [], records_to_remove = [],
              merge_candidates = [], manual_review_needed = [differing_group]\<rparr>"
    using e by (simp add: q [unfolded differing_scan_is_group ds] differing_scan_is_group)
  show ?thesis by (rule conjI c1 c2 a c3 f)+
qed

end
